theory Spec2Isabelle
  imports Main "HOL-Library.Word"
begin

section \<open>Data model\<close>

text \<open>
  A DynamoDB item is a finite map from attribute names to values. The handlers store
  strings and numbers only (\<open>Date.now()\<close> is an integer number of milliseconds).
  A \<open>char\<close> stands for one code unit of a JavaScript string.
\<close>

datatype attr = S string | N int

type_synonym item = "string \<rightharpoonup> attr"

text \<open>
  Every request a handler sends to a managed service is recorded, in the order the
  handler awaits it, whether the service then answers or rejects.
\<close>

datatype call =
    DdbPut string "(string \<times> attr) list"
  | DdbGet string
  | DdbUpdate string "(string \<times> attr) list"
  | SqsSend string string
  | HttpGet string
  | ImageGeneration
  | S3Put string "8 word list" string "(string \<times> string) list"
  | S3Presign attr nat

record s3_object =
  object_body :: "8 word list"
  object_contentType :: string
  object_metadata :: "(string \<times> string) list"

text \<open>
  The world outside the handlers: the job table keyed by \<open>jobId\<close>, the work queue
  (the \<open>{jobId, productUrl}\<close> message bodies, oldest first), the bucket keyed by object
  key, and the calls made so far.
\<close>

record world =
  store :: "string \<rightharpoonup> item"
  queue :: "(string \<times> string) list"
  bucket :: "string \<rightharpoonup> s3_object"
  trace :: "call list"

text \<open>
  An HTTP response: \<open>body\<close> is the object handed to \<open>JSON.stringify\<close>, which
  leaves out every property whose value is \<open>undefined\<close>; such a property is absent here.
\<close>

record response =
  statusCode :: nat
  body :: "string \<rightharpoonup> attr"

definition server_error :: "string \<Rightarrow> response" where
  "server_error m =
     \<lparr>statusCode = 500,
      body = [''message'' \<mapsto> S ''Internal server error'', ''error'' \<mapsto> S m]\<rparr>"

definition log_call :: "call \<Rightarrow> world \<Rightarrow> world" where
  "log_call c w = w\<lparr>trace := trace w @ [c]\<rparr>"

section \<open>Receiver (reciver\_lambda.js)\<close>

text \<open>
  Lines 17 and 18 either throw (with the message carried by \<open>Malformed\<close>) or yield the
  \<open>productUrl\<close> of the submission object, which is a string or is missing. They throw
  when \<open>JSON.parse\<close> rejects the text (also when \<open>event.body\<close> is \<open>undefined\<close>), and
  when \<open>event.body\<close> is \<open>null\<close>: \<open>JSON.parse(null)\<close> is \<open>null\<close>, which cannot be
  destructured.
\<close>

datatype request_body = Malformed string | Fields "string option"

text \<open>
  What the receiver cannot decide itself: the value of \<open>randomUUID()\<close>, the two readings
  of \<open>Date.now()\<close>, and whether \<open>PutCommand\<close> and \<open>SendMessageCommand\<close> resolve
  (\<open>None\<close>) or reject with an error message.
\<close>

record recv_env =
  uuid :: string
  clock_createdAt :: int
  clock_ttl :: int
  put_outcome :: "string option"
  send_outcome :: "string option"

definition new_item :: "recv_env \<Rightarrow> string \<Rightarrow> (string \<times> attr) list" where
  "new_item env productUrl =
     [(''jobId'', S (uuid env)),
      (''productUrl'', S productUrl),
      (''status'', S ''pending''),
      (''createdAt'', N (clock_createdAt env)),
      (''ttl'', N (clock_ttl env div 1000 + 86400))]"

definition accepted :: "string \<Rightarrow> response" where
  "accepted jobId =
     \<lparr>statusCode = 202,
      body = [''jobId'' \<mapsto> S jobId,
              ''message'' \<mapsto> S ''Image generation started'',
              ''statusUrl'' \<mapsto> S (''/api/status/'' @ jobId)]\<rparr>"

definition missing_productUrl :: response where
  "missing_productUrl =
     \<lparr>statusCode = 400, body = [''message'' \<mapsto> S ''Missing productUrl field'']\<rparr>"

text \<open>
  \<open>PutCommand\<close> without a condition replaces whatever item the key had. A rejected
  request leaves the table, respectively the queue, as it was.
\<close>

definition enqueue :: "recv_env \<Rightarrow> string \<Rightarrow> world \<Rightarrow> response \<times> world" where
  "enqueue env productUrl w =
     (let w1 = log_call (SqsSend (uuid env) productUrl) w in
      case send_outcome env of
        Some m \<Rightarrow> (server_error m, w1)
      | None \<Rightarrow> (accepted (uuid env), w1\<lparr>queue := queue w1 @ [(uuid env, productUrl)]\<rparr>))"

definition create_job :: "recv_env \<Rightarrow> string \<Rightarrow> world \<Rightarrow> response \<times> world" where
  "create_job env productUrl w =
     (let w1 = log_call (DdbPut (uuid env) (new_item env productUrl)) w in
      case put_outcome env of
        Some m \<Rightarrow> (server_error m, w1)
      | None \<Rightarrow>
          enqueue env productUrl
            (w1\<lparr>store := (store w1)(uuid env \<mapsto> map_of (new_item env productUrl))\<rparr>))"

fun receiver_handler :: "recv_env \<Rightarrow> request_body \<Rightarrow> world \<Rightarrow> response \<times> world" where
  "receiver_handler env (Malformed m) w = (server_error m, w)"
| "receiver_handler env (Fields None) w = (missing_productUrl, w)"
| "receiver_handler env (Fields (Some productUrl)) w =
     (if productUrl = [] then (missing_productUrl, w) else create_job env productUrl w)"

section \<open>Worker (the worker part of responder\_lambda.js)\<close>

subsection \<open>Truthiness and string helpers of the language\<close>

text \<open>
  \<open>!v\<close> for a property read from an item: a missing property, the empty string and
  the number 0 are falsy.
\<close>

fun truthy :: "attr option \<Rightarrow> bool" where
  "truthy None = False"
| "truthy (Some (S s)) = (s \<noteq> [])"
| "truthy (Some (N n)) = (n \<noteq> 0)"

text \<open>\<open>a || b\<close> for a string \<open>a\<close>.\<close>

definition or_string :: "string \<Rightarrow> string \<Rightarrow> string" where
  "or_string a b = (if a = [] then b else a)"

text \<open>\<open>s.startsWith(p)\<close>.\<close>

definition startsWith :: "string \<Rightarrow> string \<Rightarrow> bool" where
  "startsWith s p = (take (length p) s = p)"

text \<open>
  White space as \<open>String.prototype.trim\<close> sees it, among the code units below 256:
  TAB, LF, VT, FF, CR, SP and NBSP.
\<close>

definition js_whitespace :: "char \<Rightarrow> bool" where
  "js_whitespace c = ((of_char c :: nat) \<in> {9, 10, 11, 12, 13, 32, 160})"

definition trim :: "string \<Rightarrow> string" where
  "trim s = rev (dropWhile js_whitespace (rev (dropWhile js_whitespace s)))"

subsection \<open>Format detection\<close>

definition hex_digit :: "nat \<Rightarrow> char" where
  "hex_digit n = ''0123456789abcdef'' ! (n mod 16)"

definition hex_byte :: "8 word \<Rightarrow> string" where
  "hex_byte b = [hex_digit (unat b div 16), hex_digit (unat b mod 16)]"

text \<open>\<open>buf.toString('hex', start, end)\<close>: the bytes from \<open>start\<close> up to \<open>end\<close>, clipped to the buffer.\<close>

definition toString_hex :: "8 word list \<Rightarrow> nat \<Rightarrow> nat \<Rightarrow> string" where
  "toString_hex buf start end = concat (map hex_byte (take (end - start) (drop start buf)))"

definition detect_format :: "8 word list \<Rightarrow> string \<times> string" where
  "detect_format imageBuffer =
     (let fileSignature = toString_hex imageBuffer 0 4 in
      if startsWith fileSignature ''ffd8'' then (''jpg'', ''image/jpeg'')
      else if startsWith fileSignature ''8950'' then (''png'', ''image/png'')
      else (''jpg'', ''image/jpeg''))"

subsection \<open>Metadata sanitisation\<close>

definition printable :: "char \<Rightarrow> bool" where
  "printable c = (32 \<le> (of_char c :: nat) \<and> (of_char c :: nat) \<le> 126)"

definition newline_or_tab :: "char \<Rightarrow> bool" where
  "newline_or_tab c = ((of_char c :: nat) \<in> {13, 10, 9})"

text \<open>
  \<open>None\<close> is \<open>null\<close> or \<open>undefined\<close>; these and the empty string are falsy. The
  second \<open>replace\<close> removes every code unit outside 0x20 to 0x7E, so a character
  beyond ASCII disappears whether it is held as one code unit or as several bytes, and
  what \<open>substring\<close> counts afterwards are ASCII characters.
\<close>

fun sanitizeMetadata :: "string option \<Rightarrow> string" where
  "sanitizeMetadata None = []"
| "sanitizeMetadata (Some v) =
     (if v = [] then []
      else trim (take 200 (filter printable
             (map (\<lambda>c. if newline_or_tab c then CHR '' '' else c) v))))"

subsection \<open>The record update\<close>

text \<open>
  \<open>UpdateCommand\<close> with \<open>SET\<close> and no condition expression: DynamoDB edits the
  attributes of the item with that key, and adds a new item holding the key and the
  assigned attributes when the table has none.
\<close>

definition assign :: "string \<times> attr \<Rightarrow> item \<Rightarrow> item" where
  "assign kv it = it(fst kv \<mapsto> snd kv)"

definition ddb_update ::
  "string \<Rightarrow> (string \<times> attr) list \<Rightarrow> (string \<rightharpoonup> item) \<Rightarrow> (string \<rightharpoonup> item)" where
  "ddb_update jobId assignments st =
     st(jobId \<mapsto>
        fold assign assignments
          (case st jobId of None \<Rightarrow> [''jobId'' \<mapsto> S jobId] | Some it \<Rightarrow> it))"

text \<open>
  A step that can throw returns the world it leaves behind and \<open>Some\<close> error message
  when it throws. The first argument says whether DynamoDB accepts the request.
\<close>

definition updateJobStatus ::
  "string option \<Rightarrow> string \<Rightarrow> string \<Rightarrow> (string \<times> attr) list \<Rightarrow> world
     \<Rightarrow> world \<times> string option" where
  "updateJobStatus outcome jobId status additionalData w =
     (let assignments = (''status'', S status) # additionalData;
          w1 = log_call (DdbUpdate jobId assignments) w in
      case outcome of
        Some m \<Rightarrow> (w1, Some m)
      | None \<Rightarrow> (w1\<lparr>store := ddb_update jobId assignments (store w1)\<rparr>, None))"

subsection \<open>Processing one work item\<close>

text \<open>The fields of the scraped page that reach the record and the object metadata.\<close>

record page_content =
  productName :: string
  price :: string
  offer :: string

text \<open>An element of \<open>response.output\<close>; \<open>oresult\<close> is the base64 text, when there is one.\<close>

record output_item =
  otype :: string
  oresult :: "string option"

text \<open>
  What the worker cannot decide itself, for one work item: whether each awaited call
  resolves or rejects (with an error message), what the scraper and the image model
  return, the bytes \<open>Buffer.from(\<cdot>, "base64")\<close> decodes, the presigned URL, and the
  readings of \<open>Date.now()\<close>. The prompt built from the page is an argument of the image
  call only, so it is part of that call's outcome.
\<close>

record work_env =
  update_processing :: "string option"
  scrape_outcome :: "string + page_content"
  synth_outcome :: "string + output_item list"
  base64_decode :: "string \<Rightarrow> 8 word list"
  put_object_outcome :: "string option"
  presign_outcome :: "string + string"
  update_completed :: "string option"
  clock_completedAt :: int
  clock_expiresAt :: int
  update_failed :: "string option"
  clock_failedAt :: int

text \<open>
  \<open>output.filter(o => o.type === "image_generation_call").map(o => o.result).shift()\<close>,
  followed by the test \<open>!imageData\<close>: \<open>None\<close> when the worker throws
  "No image returned from AI".
\<close>

definition image_data :: "output_item list \<Rightarrow> string option" where
  "image_data output =
     (case map oresult (filter (\<lambda>out. otype out = ''image_generation_call'') output) of
        [] \<Rightarrow> None
      | r # _ \<Rightarrow> (case r of None \<Rightarrow> None | Some d \<Rightarrow> if d = [] then None else Some d))"

definition completed_fields ::
  "work_env \<Rightarrow> page_content \<Rightarrow> string \<Rightarrow> string \<Rightarrow> string \<Rightarrow> (string \<times> attr) list" where
  "completed_fields env pageContent presignedUrl fileName contentType =
     [(''imageUrl'', S presignedUrl),
      (''fileName'', S fileName),
      (''productName'', S (or_string (productName pageContent) [])),
      (''price'', S (or_string (price pageContent) [])),
      (''offer'', S (or_string (offer pageContent) [])),
      (''contentType'', S contentType),
      (''completedAt'', N (clock_completedAt env)),
      (''expiresAt'', N (clock_expiresAt env + 3600 * 1000))]"

definition object_metadata_of :: "page_content \<Rightarrow> string \<Rightarrow> (string \<times> string) list" where
  "object_metadata_of pageContent productUrl =
     [(''productname'', sanitizeMetadata (Some (productName pageContent))),
      (''price'', sanitizeMetadata (Some (price pageContent))),
      (''producturl'', sanitizeMetadata (Some productUrl))]"

definition store_image ::
  "work_env \<Rightarrow> string \<Rightarrow> string \<Rightarrow> page_content \<Rightarrow> string \<Rightarrow> world \<Rightarrow> world \<times> string option" where
  "store_image env jobId productUrl pageContent imageData w =
     (let imageBuffer = base64_decode env imageData;
          extension = fst (detect_format imageBuffer);
          contentType = snd (detect_format imageBuffer);
          fileName = jobId @ ''.'' @ extension;
          metadata = object_metadata_of pageContent productUrl;
          w1 = log_call (S3Put fileName imageBuffer contentType metadata) w in
      case put_object_outcome env of
        Some m \<Rightarrow> (w1, Some m)
      | None \<Rightarrow>
          (let w2 = w1\<lparr>bucket := (bucket w1)(fileName \<mapsto>
                      \<lparr>object_body = imageBuffer, object_contentType = contentType,
                       object_metadata = metadata\<rparr>)\<rparr>;
               w3 = log_call (S3Presign (S fileName) 3600) w2 in
           case presign_outcome env of
             Inl m \<Rightarrow> (w3, Some m)
           | Inr presignedUrl \<Rightarrow>
               updateJobStatus (update_completed env) jobId ''completed''
                 (completed_fields env pageContent presignedUrl fileName contentType) w3))"

definition generate_image ::
  "work_env \<Rightarrow> string \<Rightarrow> string \<Rightarrow> page_content \<Rightarrow> world \<Rightarrow> world \<times> string option" where
  "generate_image env jobId productUrl pageContent w =
     (let w1 = log_call ImageGeneration w in
      case synth_outcome env of
        Inl m \<Rightarrow> (w1, Some m)
      | Inr output \<Rightarrow>
          (case image_data output of
             None \<Rightarrow> (w1, Some ''No image returned from AI'')
           | Some imageData \<Rightarrow> store_image env jobId productUrl pageContent imageData w1))"

text \<open>The body of the \<open>try\<close>.\<close>

definition try_block :: "work_env \<Rightarrow> string \<Rightarrow> string \<Rightarrow> world \<Rightarrow> world \<times> string option" where
  "try_block env jobId productUrl w =
     (case updateJobStatus (update_processing env) jobId ''processing'' [] w of
        (w1, Some m) \<Rightarrow> (w1, Some m)
      | (w1, None) \<Rightarrow>
          (let w2 = log_call (HttpGet productUrl) w1 in
           case scrape_outcome env of
             Inl m \<Rightarrow> (w2, Some m)
           | Inr pageContent \<Rightarrow> generate_image env jobId productUrl pageContent w2))"

text \<open>The \<open>try\<close> with its \<open>catch\<close>: an error thrown by the \<open>catch\<close> itself leaves the handler.\<close>

definition process_record :: "work_env \<Rightarrow> string \<Rightarrow> string \<Rightarrow> world \<Rightarrow> world \<times> string option" where
  "process_record env jobId productUrl w =
     (case try_block env jobId productUrl w of
        (w1, None) \<Rightarrow> (w1, None)
      | (w1, Some m) \<Rightarrow>
          updateJobStatus (update_failed env) jobId ''failed''
            [(''error'', S m), (''failedAt'', N (clock_failedAt env))] w1)"

text \<open>
  \<open>JSON.parse(record.body)\<close> stands outside the \<open>try\<close>: a body that does not parse
  throws out of the handler. The loop stops at the first record that throws.
\<close>

datatype sqs_record = Unparsable string | WorkItem string string

fun worker_handler :: "(work_env \<times> sqs_record) list \<Rightarrow> world \<Rightarrow> world \<times> string option" where
  "worker_handler [] w = (w, None)"
| "worker_handler ((env, Unparsable m) # records) w = (w, Some m)"
| "worker_handler ((env, WorkItem jobId productUrl) # records) w =
     (case process_record env jobId productUrl w of
        (w1, Some m) \<Rightarrow> (w1, Some m)
      | (w1, None) \<Rightarrow> worker_handler records w1)"

section \<open>Responder (the responder part of responder\_lambda.js)\<close>

text \<open>
  \<open>a || d\<close> for a property read from an item, and \<open>v < n\<close> for a number \<open>n\<close>.
  A string operand of \<open><\<close> is converted to a number first: this is modelled for
  optionally signed decimal integers between white space (the empty string is 0), and
  every other string counts as \<open>NaN\<close>, which compares false. Both writers of
  \<open>expiresAt\<close> store a number.
\<close>

fun js_or :: "attr option \<Rightarrow> attr \<Rightarrow> attr" where
  "js_or None d = d"
| "js_or (Some v) d = (if truthy (Some v) then v else d)"

definition is_digit :: "char \<Rightarrow> bool" where
  "is_digit c = (48 \<le> (of_char c :: nat) \<and> (of_char c :: nat) \<le> 57)"

definition digits_value :: "string \<Rightarrow> int" where
  "digits_value ds = foldl (\<lambda>n c. 10 * n + (int (of_char c) - 48)) 0 ds"

definition string_to_number :: "string \<Rightarrow> int option" where
  "string_to_number s =
     (case trim s of
        [] \<Rightarrow> Some 0
      | c # ds \<Rightarrow>
          if (c = CHR ''-'' \<or> c = CHR ''+'') \<and> ds \<noteq> [] \<and> list_all is_digit ds
          then Some (if c = CHR ''-'' then - digits_value ds else digits_value ds)
          else if list_all is_digit (c # ds) then Some (digits_value (c # ds))
          else None)"

fun js_less :: "attr \<Rightarrow> int \<Rightarrow> bool" where
  "js_less (N a) n = (a < n)"
| "js_less (S s) n = (case string_to_number s of None \<Rightarrow> False | Some a \<Rightarrow> a < n)"

text \<open>
  What the responder cannot decide itself: whether \<open>GetCommand\<close> resolves, the reading
  of \<open>Date.now()\<close>, and the URL \<open>getSignedUrl\<close> returns (or the error it throws).
\<close>

record resp_env =
  get_outcome :: "string option"
  clock_now :: int
  getSignedUrl_outcome :: "string + string"

text \<open>
  The two link properties of the response for a completed job, lines 51 to 83:
  \<open>imageUrl\<close> (possibly \<open>undefined\<close>) and \<open>urlExpiresAt\<close>.
\<close>

definition link_fields ::
  "resp_env \<Rightarrow> item \<Rightarrow> world \<Rightarrow> world \<times> (string + attr option \<times> attr)" where
  "link_fields env job w =
     (let now = clock_now env;
          urlExpiresAt = js_or (job ''expiresAt'') (N 0) in
      if \<not> truthy (job ''imageUrl'') \<or> js_less urlExpiresAt (now + 300000) then
        (case job ''fileName'' of
           Some fileName \<Rightarrow>
             if truthy (Some fileName) then
               (let w1 = log_call (S3Presign fileName 3600) w in
                case getSignedUrl_outcome env of
                  Inl m \<Rightarrow> (w1, Inl m)
                | Inr newPresignedUrl \<Rightarrow>
                    (w1, Inr (Some (S newPresignedUrl), N (now + 3600 * 1000))))
             else (w, Inr (job ''imageUrl'', urlExpiresAt))
         | None \<Rightarrow> (w, Inr (job ''imageUrl'', urlExpiresAt)))
      else (w, Inr (job ''imageUrl'', urlExpiresAt)))"

definition base_fields :: "item \<Rightarrow> string \<rightharpoonup> attr" where
  "base_fields job =
     Map.empty(''jobId'' := job ''jobId'', ''status'' := job ''status'',
               ''createdAt'' := job ''createdAt'')"

definition ok :: "(string \<rightharpoonup> attr) \<Rightarrow> response" where
  "ok b = \<lparr>statusCode = 200, body = b\<rparr>"

definition status_response :: "resp_env \<Rightarrow> item \<Rightarrow> world \<Rightarrow> response \<times> world" where
  "status_response env job w =
     (if job ''status'' = Some (S ''completed'') then
        (case link_fields env job w of
           (w1, Inl m) \<Rightarrow> (server_error m, w1)
         | (w1, Inr (imageUrl, urlExpiresAt)) \<Rightarrow>
             (ok ((base_fields job)
                   (''imageUrl'' := imageUrl, ''urlExpiresAt'' \<mapsto> urlExpiresAt,
                    ''overlayText'' := job ''overlayText'',
                    ''contentType'' := job ''contentType'',
                    ''completedAt'' := job ''completedAt'',
                    ''fileName'' := job ''fileName'')), w1))
      else if job ''status'' = Some (S ''failed'') then
        (ok ((base_fields job)(''error'' := job ''error'', ''failedAt'' := job ''failedAt'')), w)
      else if job ''status'' = Some (S ''processing'') then
        (ok ((base_fields job)(''message'' \<mapsto> S ''Image generation in progress'')), w)
      else (ok (base_fields job), w))"

definition missing_jobId :: response where
  "missing_jobId = \<lparr>statusCode = 400, body = [''message'' \<mapsto> S ''Missing jobId'']\<rparr>"

definition not_found :: response where
  "not_found = \<lparr>statusCode = 404, body = [''message'' \<mapsto> S ''Job not found'']\<rparr>"

definition lookup_job :: "resp_env \<Rightarrow> string \<Rightarrow> world \<Rightarrow> response \<times> world" where
  "lookup_job env jobId w =
     (let w1 = log_call (DdbGet jobId) w in
      case get_outcome env of
        Some m \<Rightarrow> (server_error m, w1)
      | None \<Rightarrow>
          (case store w1 jobId of
             None \<Rightarrow> (not_found, w1)
           | Some job \<Rightarrow> status_response env job w1))"

text \<open>\<open>event.pathParameters?.jobId\<close> is a string or \<open>undefined\<close>.\<close>

fun responder_handler :: "resp_env \<Rightarrow> string option \<Rightarrow> world \<Rightarrow> response \<times> world" where
  "responder_handler env None w = (missing_jobId, w)"
| "responder_handler env (Some jobId) w =
     (if jobId = [] then (missing_jobId, w) else lookup_job env jobId w)"

section \<open>Histories\<close>

text \<open>
  The system starts with an empty table, queue and bucket. An event is one invocation
  of one of the three handlers, with the outcomes of its external calls.
\<close>

definition initial :: world where
  "initial = \<lparr>store = Map.empty, queue = [], bucket = Map.empty, trace = []\<rparr>"

datatype event =
    Create recv_env request_body
  | Process "(work_env \<times> sqs_record) list"
  | Read resp_env "string option"

fun step :: "event \<Rightarrow> world \<Rightarrow> world" where
  "step (Create env b) w = snd (receiver_handler env b w)"
| "step (Process records) w = fst (worker_handler records w)"
| "step (Read env jobId) w = snd (responder_handler env jobId w)"

definition run :: "event list \<Rightarrow> world \<Rightarrow> world" where
  "run events w = fold step events w"

text \<open>The job identifiers an event can write a record for.\<close>

fun work_item_ids :: "(work_env \<times> sqs_record) list \<Rightarrow> string set" where
  "work_item_ids [] = {}"
| "work_item_ids ((env, Unparsable m) # records) = work_item_ids records"
| "work_item_ids ((env, WorkItem jobId productUrl) # records) =
     insert jobId (work_item_ids records)"

fun written_ids :: "event \<Rightarrow> string set" where
  "written_ids (Create env (Fields (Some productUrl))) =
     (if productUrl = [] then {} else {uuid env})"
| "written_ids (Create env b) = {}"
| "written_ids (Process records) = work_item_ids records"
| "written_ids (Read env jobId) = {}"

text \<open>The status attribute of a job's record, if the record and the attribute exist.\<close>

definition status_of :: "world \<Rightarrow> string \<Rightarrow> attr option" where
  "status_of w jobId = (case store w jobId of None \<Rightarrow> None | Some job \<Rightarrow> job ''status'')"

definition field_of :: "world \<Rightarrow> string \<Rightarrow> string \<Rightarrow> attr option" where
  "field_of w jobId k = (case store w jobId of None \<Rightarrow> None | Some job \<Rightarrow> job k)"

section \<open>Concrete scenarios\<close>

text \<open>A request that has no body: \<open>event.body\<close> is \<open>null\<close>.\<close>

definition null_body :: request_body where
  "null_body = Malformed ''Cannot destructure property productUrl of body as it is null.''"

text \<open>A submission whose record write succeeds and whose enqueue is rejected.\<close>

definition env_send_fails :: recv_env where
  "env_send_fails =
     \<lparr>uuid = ''job-1'', clock_createdAt = 1700000000000, clock_ttl = 1700000000000,
      put_outcome = None, send_outcome = Some ''queue unavailable''\<rparr>"

text \<open>A work item whose every call succeeds and whose image starts with the PNG signature.\<close>

definition env_png :: work_env where
  "env_png =
     \<lparr>update_processing = None,
      scrape_outcome = Inr \<lparr>productName = ''Widget'', price = ''$9.99'', offer = []\<rparr>,
      synth_outcome = Inr [\<lparr>otype = ''reasoning'', oresult = None\<rparr>,
                           \<lparr>otype = ''image_generation_call'', oresult = Some ''iVBORw==''\<rparr>],
      base64_decode = (\<lambda>s. [0x89, 0x50, 0x4E, 0x47]),
      put_object_outcome = None,
      presign_outcome = Inr ''https://bucket/job-1.png?sig=1'',
      update_completed = None,
      clock_completedAt = 1700000060000,
      clock_expiresAt = 1700000060000,
      update_failed = None,
      clock_failedAt = 1700000060000\<rparr>"

text \<open>A table holding one completed job, and one holding one pending job.\<close>

definition completed_item :: item where
  "completed_item =
     [''jobId'' \<mapsto> S ''job-1'', ''productUrl'' \<mapsto> S ''https://example.com/widget'',
      ''status'' \<mapsto> S ''completed'', ''createdAt'' \<mapsto> N 1700000000000,
      ''ttl'' \<mapsto> N 1700086400, ''imageUrl'' \<mapsto> S ''https://bucket/job-1.png?sig=1'',
      ''fileName'' \<mapsto> S ''job-1.png'', ''contentType'' \<mapsto> S ''image/png'',
      ''completedAt'' \<mapsto> N 1700000060000, ''expiresAt'' \<mapsto> N 1700003660000]"

definition world_completed :: world where
  "world_completed =
     \<lparr>store = [''job-1'' \<mapsto> completed_item],
      queue = [(''job-1'', ''https://example.com/widget'')],
      bucket = Map.empty,
      trace = []\<rparr>"

definition world_pending :: world where
  "world_pending =
     \<lparr>store = [''job-1'' \<mapsto>
         [''jobId'' \<mapsto> S ''job-1'', ''productUrl'' \<mapsto> S ''https://example.com/widget'',
          ''status'' \<mapsto> S ''pending'', ''createdAt'' \<mapsto> N 1700000000000,
          ''ttl'' \<mapsto> N 1700086400]],
      queue = [(''job-1'', ''https://example.com/widget'')],
      bucket = Map.empty,
      trace = []\<rparr>"

text \<open>A work item whose scrape times out; in the second variant DynamoDB also rejects the
  write of the failed status.\<close>

definition env_scrape_fails :: work_env where
  "env_scrape_fails =
     \<lparr>update_processing = None,
      scrape_outcome = Inl ''timeout of 10000ms exceeded'',
      synth_outcome = Inr [],
      base64_decode = (\<lambda>s. []),
      put_object_outcome = None,
      presign_outcome = Inr [],
      update_completed = None,
      clock_completedAt = 1700000090000,
      clock_expiresAt = 1700000090000,
      update_failed = None,
      clock_failedAt = 1700000090000\<rparr>"

definition env_failed_write_rejected :: work_env where
  "env_failed_write_rejected =
     env_scrape_fails\<lparr>update_failed := Some ''ProvisionedThroughputExceededException''\<rparr>"

text \<open>A completed record that lacks \<open>fileName\<close>.\<close>

definition item_without_key :: item where
  "item_without_key =
     [''jobId'' \<mapsto> S ''job-2'', ''status'' \<mapsto> S ''completed'',
      ''createdAt'' \<mapsto> N 1700000000000,
      ''imageUrl'' \<mapsto> S ''https://bucket/job-2.jpg?sig=1'',
      ''expiresAt'' \<mapsto> N 1700003660000]"

definition world_without_key :: world where
  "world_without_key =
     \<lparr>store = [''job-2'' \<mapsto> item_without_key], queue = [], bucket = Map.empty, trace = []\<rparr>"

text \<open>
  A status read five minutes or less before the stored expiry, and one long before it;
  \<open>getSignedUrl\<close> would return a new URL in both.
\<close>

definition env_read_late :: resp_env where
  "env_read_late =
     \<lparr>get_outcome = None, clock_now = 1700003600000,
      getSignedUrl_outcome = Inr ''https://bucket/job-1.png?sig=2''\<rparr>"

definition env_read_early :: resp_env where
  "env_read_early =
     \<lparr>get_outcome = None, clock_now = 1700000120000,
      getSignedUrl_outcome = Inr ''https://bucket/job-1.png?sig=2''\<rparr>"

section \<open>Receiver: validation and ordering\<close>

lemma create_job_put_rejected:
  "put_outcome env = Some m \<Longrightarrow>
   create_job env u w = (server_error m, log_call (DdbPut (uuid env) (new_item env u)) w)"
  by (simp add: create_job_def)

lemma create_job_send_rejected:
  "put_outcome env = None \<Longrightarrow> send_outcome env = Some m \<Longrightarrow>
   create_job env u w =
     (server_error m,
      w\<lparr>store := (store w)(uuid env \<mapsto> map_of (new_item env u)),
        trace := trace w @ [DdbPut (uuid env) (new_item env u), SqsSend (uuid env) u]\<rparr>)"
  by (simp add: create_job_def enqueue_def log_call_def)

lemma create_job_ok:
  "put_outcome env = None \<Longrightarrow> send_outcome env = None \<Longrightarrow>
   create_job env u w =
     (accepted (uuid env),
      w\<lparr>store := (store w)(uuid env \<mapsto> map_of (new_item env u)),
        queue := queue w @ [(uuid env, u)],
        trace := trace w @ [DdbPut (uuid env) (new_item env u), SqsSend (uuid env) u]\<rparr>)"
  by (simp add: create_job_def enqueue_def log_call_def)

text \<open>
  A submission object whose \<open>productUrl\<close> is missing or the empty string is answered
  with the client error 400; the table, the queue and the trace of calls are exactly
  as before, and the response carries no \<open>jobId\<close>.
\<close>

lemma missing_productUrl_rejected:
  "productUrl = None \<or> productUrl = Some [] \<Longrightarrow>
   receiver_handler env (Fields productUrl) w = (r, w') \<Longrightarrow>
   statusCode r = 400 \<and> body r ''jobId'' = None \<and> w' = w"
  by (auto simp: missing_productUrl_def)

text \<open>
  C6. A request without a body has no \<open>productUrl\<close> either, and the claim asks for
  the client error there too. The handler does not reach its check on line 20:
  the destructuring on line 18 throws inside the \<open>try\<close>, and the \<open>catch\<close> on lines 62
  to 71 answers 500. No record is written, nothing is enqueued and no \<open>jobId\<close> is
  returned.
\<close>

theorem C6_null_body_answered_500:
  "statusCode (fst (receiver_handler env null_body w)) = 500
   \<and> body (fst (receiver_handler env null_body w)) ''jobId'' = None
   \<and> snd (receiver_handler env null_body w) = w"
  by (simp add: null_body_def server_error_def)

lemma new_item_fields:
  "map_of (new_item env u) ''status'' = Some (S ''pending'')"
  "map_of (new_item env u) ''createdAt'' = Some (N (clock_createdAt env))"
  "map_of (new_item env u) ''ttl'' = Some (N (clock_ttl env div 1000 + 86400))"
  "map_of (new_item env u) ''jobId'' = Some (S (uuid env))"
  "map_of (new_item env u) ''productUrl'' = Some (S u)"
  by (simp_all add: new_item_def)

text \<open>
  C7. For a valid submission the handler first sends the record write (status pending,
  \<open>createdAt\<close> the clock reading, \<open>ttl\<close> the clock reading in seconds plus 86400, that
  is 24 hours) and only then the enqueue: the trace grows by the put followed by the
  send, and by the put alone when the put is rejected. When the put succeeds and the
  enqueue is rejected, the record is in the table with status pending, the queue is
  unchanged and the caller gets a 500 without a \<open>jobId\<close>; when both succeed the work
  item \<open>(jobId, productUrl)\<close> is at the end of the queue and the caller gets 202 with
  the \<open>jobId\<close>.
\<close>

theorem C7_record_written_before_enqueue:
  assumes valid: "productUrl \<noteq> []"
    and run: "receiver_handler env (Fields (Some productUrl)) w = (r, w')"
  shows "(put_outcome env \<noteq> None \<longrightarrow>
        store w' = store w \<and> queue w' = queue w \<and> statusCode r = 500
        \<and> trace w' = trace w @ [DdbPut (uuid env) (new_item env productUrl)])
   \<and> (put_outcome env = None \<longrightarrow>
        field_of w' (uuid env) ''status'' = Some (S ''pending'')
        \<and> field_of w' (uuid env) ''createdAt'' = Some (N (clock_createdAt env))
        \<and> field_of w' (uuid env) ''ttl'' = Some (N (clock_ttl env div 1000 + 86400))
        \<and> field_of w' (uuid env) ''productUrl'' = Some (S productUrl)
        \<and> trace w' = trace w @ [DdbPut (uuid env) (new_item env productUrl),
                                  SqsSend (uuid env) productUrl])
   \<and> (put_outcome env = None \<and> send_outcome env \<noteq> None \<longrightarrow>
        queue w' = queue w \<and> statusCode r = 500 \<and> body r ''jobId'' = None)
   \<and> (put_outcome env = None \<and> send_outcome env = None \<longrightarrow>
        queue w' = queue w @ [(uuid env, productUrl)] \<and> statusCode r = 202
        \<and> body r ''jobId'' = Some (S (uuid env)))"
proof -
  from valid run have cj: "create_job env productUrl w = (r, w')"
    by simp
  show ?thesis
  proof (cases "put_outcome env")
    case (Some m)
    with cj create_job_put_rejected[OF Some, of productUrl w] show ?thesis
      by (auto simp: log_call_def server_error_def)
  next
    case None
    note put_ok = None
    show ?thesis
    proof (cases "send_outcome env")
      case None
      with cj put_ok create_job_ok[OF put_ok None, of productUrl w] show ?thesis
        by (auto simp: field_of_def new_item_fields accepted_def)
    next
      case (Some m)
      with cj put_ok create_job_send_rejected[OF put_ok Some, of productUrl w] show ?thesis
        by (auto simp: field_of_def new_item_fields server_error_def)
    qed
  qed
qed

theorem C7_witness:
  "(''https://example.com/widget'' \<noteq> [])
   \<and> statusCode (fst (receiver_handler env_send_fails (Fields (Some ''https://example.com/widget'')) initial)) = 500
   \<and> field_of (snd (receiver_handler env_send_fails (Fields (Some ''https://example.com/widget'')) initial))
        ''job-1'' ''status'' = Some (S ''pending'')
   \<and> queue (snd (receiver_handler env_send_fails (Fields (Some ''https://example.com/widget'')) initial)) = []"
  using C7_record_written_before_enqueue
    [of "''https://example.com/widget''" env_send_fails initial
        "fst (receiver_handler env_send_fails (Fields (Some ''https://example.com/widget'')) initial)"
        "snd (receiver_handler env_send_fails (Fields (Some ''https://example.com/widget'')) initial)"]
  by (simp add: env_send_fails_def initial_def)

section \<open>Worker: metadata sanitisation\<close>

lemma set_dropWhile_subset: "set (dropWhile P xs) \<subseteq> set xs"
  by (auto dest: set_dropWhileD)

lemma set_trim: "set (trim s) \<subseteq> set s"
proof -
  have "set (trim s) = set (dropWhile js_whitespace (rev (dropWhile js_whitespace s)))"
    by (simp add: trim_def)
  also have "\<dots> \<subseteq> set (rev (dropWhile js_whitespace s))"
    by (rule set_dropWhile_subset)
  also have "\<dots> \<subseteq> set s"
    by (simp add: set_dropWhile_subset)
  finally show ?thesis .
qed

lemma length_trim: "length (trim s) \<le> length s"
proof -
  have "length (trim s) = length (dropWhile js_whitespace (rev (dropWhile js_whitespace s)))"
    by (simp add: trim_def)
  also have "\<dots> \<le> length (rev (dropWhile js_whitespace s))"
    by (rule length_dropWhile_le)
  also have "\<dots> \<le> length s"
    by (simp add: length_dropWhile_le)
  finally show ?thesis .
qed

text \<open>
  C8. Whatever the input, the sanitised value consists of printable ASCII code units
  only (0x20 to 0x7E, so no control character and nothing non-printable) and has at
  most 200 of them; \<open>null\<close>, \<open>undefined\<close> and the empty string sanitise to the
  empty string.
\<close>

theorem C8_sanitizeMetadata_printable_and_short:
  "(\<forall>c \<in> set (sanitizeMetadata v). 32 \<le> (of_char c :: nat) \<and> (of_char c :: nat) \<le> 126)
   \<and> length (sanitizeMetadata v) \<le> 200
   \<and> sanitizeMetadata None = [] \<and> sanitizeMetadata (Some []) = []"
proof (cases v)
  case None
  then show ?thesis by simp
next
  case (Some s)
  let ?t = "take 200 (filter printable (map (\<lambda>c. if newline_or_tab c then CHR '' '' else c) s))"
  have "set (trim ?t) \<subseteq> set ?t" by (rule set_trim)
  also have "\<dots> \<subseteq> {c. printable c}"
    by (auto dest: in_set_takeD)
  finally have chars: "\<forall>c \<in> set (trim ?t). 32 \<le> (of_char c :: nat) \<and> (of_char c :: nat) \<le> 126"
    by (auto simp: printable_def)
  have "length (trim ?t) \<le> length ?t" by (rule length_trim)
  also have "\<dots> \<le> 200" by simp
  finally have len: "length (trim ?t) \<le> 200" .
  from Some chars len show ?thesis by simp
qed

theorem C8_witness:
  "sanitizeMetadata (Some (''  Caf'' @ [char_of (233::nat)] @ '' au'' @ [CHR 0x09] @ ''lait'' @ [CHR 0x0A] @ '' '')) = ''Caf au lait''
   \<and> length (sanitizeMetadata (Some (''  Caf'' @ [char_of (233::nat)] @ '' au'' @ [CHR 0x09] @ ''lait'' @ [CHR 0x0A] @ '' ''))) \<le> 200"
  using C8_sanitizeMetadata_printable_and_short
    [of "Some (''  Caf'' @ [char_of (233::nat)] @ '' au'' @ [CHR 0x09] @ ''lait'' @ [CHR 0x0A] @ '' '')"]
  by (simp add: trim_def printable_def newline_or_tab_def js_whitespace_def)

section \<open>Worker: format detection\<close>

lemma below_16_cases:
  assumes "(n::nat) < 16"
  shows "n \<in> {0, 1, 2, 3, 4, 5, 6, 7, 8, 9, 10, 11, 12, 13, 14, 15}"
  using assms by auto arith

lemma hex_digit_inj: "m < 16 \<Longrightarrow> n < 16 \<Longrightarrow> hex_digit m = hex_digit n \<longleftrightarrow> m = n"
  by (drule below_16_cases, drule below_16_cases) (auto simp: hex_digit_def)

lemma unat_byte_bound: "unat (b :: 8 word) < 256"
  using unsigned_less[of b, where 'a = nat] by simp

lemma hex_byte_inj: "hex_byte a = hex_byte b \<longleftrightarrow> a = b"
proof
  assume "hex_byte a = hex_byte b"
  then have "unat a div 16 = unat b div 16" "unat a mod 16 = unat b mod 16"
    using hex_digit_inj[of "unat a div 16" "unat b div 16"]
          hex_digit_inj[of "unat a mod 16" "unat b mod 16"]
          unat_byte_bound[of a] unat_byte_bound[of b]
    by (auto simp: hex_byte_def)
  then have "unat a = unat b"
    by (metis div_mult_mod_eq)
  then show "a = b" by (simp add: word_unat_eq_iff)
qed simp

lemma length_hex_byte: "length (hex_byte b) = 2"
  by (simp add: hex_byte_def)

lemma hex_byte_values:
  "hex_byte 0xFF = ''ff''" "hex_byte 0xD8 = ''d8''" "hex_byte 0x89 = ''89''" "hex_byte 0x50 = ''50''"
  by (simp_all add: hex_byte_def hex_digit_def)

lemma append_hex_byte_eq:
  "hex_byte x @ hex_byte y = hex_byte a @ hex_byte b \<longleftrightarrow> x = a \<and> y = b"
  by (simp add: length_hex_byte hex_byte_inj)

lemma signature_prefix:
  "startsWith (toString_hex buf 0 4) (hex_byte a @ hex_byte b) \<longleftrightarrow> take 2 buf = [a, b]"
proof (cases buf)
  case Nil
  then show ?thesis by (simp add: startsWith_def toString_hex_def hex_byte_def)
next
  case (Cons x xs)
  note buf = Cons
  show ?thesis
  proof (cases xs)
    case Nil
    with buf show ?thesis by (simp add: startsWith_def toString_hex_def hex_byte_def)
  next
    case (Cons y ys)
    have "toString_hex buf 0 4 = (hex_byte x @ hex_byte y) @ concat (map hex_byte (take 2 ys))"
      using buf Cons by (simp add: toString_hex_def numeral_eq_Suc)
    then have "take 4 (toString_hex buf 0 4) = hex_byte x @ hex_byte y"
      by (simp add: length_hex_byte)
    then have "startsWith (toString_hex buf 0 4) (hex_byte a @ hex_byte b)
                 \<longleftrightarrow> hex_byte x @ hex_byte y = hex_byte a @ hex_byte b"
      by (simp add: startsWith_def length_hex_byte)
    also have "\<dots> \<longleftrightarrow> x = a \<and> y = b"
      by (rule append_hex_byte_eq)
    also have "\<dots> \<longleftrightarrow> take 2 buf = [a, b]"
      using buf Cons by (simp add: numeral_eq_Suc)
    finally show ?thesis .
  qed
qed

lemma detect_format_leading_bytes:
  "detect_format buf =
     (if take 2 buf = [0xFF, 0xD8] then (''jpg'', ''image/jpeg'')
      else if take 2 buf = [0x89, 0x50] then (''png'', ''image/png'')
      else (''jpg'', ''image/jpeg''))"
  using signature_prefix[of buf "0xFF" "0xD8"] signature_prefix[of buf "0x89" "0x50"]
  by (simp add: detect_format_def hex_byte_values)


section \<open>Worker: record updates and the pipeline\<close>

lemma ddb_update_same:
  "ddb_update jobId assignments st jobId =
     Some (fold assign assignments
             (case st jobId of None \<Rightarrow> [''jobId'' \<mapsto> S jobId] | Some it \<Rightarrow> it))"
  by (simp add: ddb_update_def)

lemma updateJobStatus_ok:
  "updateJobStatus None jobId status additionalData w =
     (w\<lparr>store := ddb_update jobId ((''status'', S status) # additionalData) (store w),
        trace := trace w @ [DdbUpdate jobId ((''status'', S status) # additionalData)]\<rparr>, None)"
  by (simp add: updateJobStatus_def log_call_def Let_def)

lemma updateJobStatus_rejected:
  "updateJobStatus (Some m) jobId status additionalData w =
     (w\<lparr>trace := trace w @ [DdbUpdate jobId ((''status'', S status) # additionalData)]\<rparr>, Some m)"
  by (simp add: updateJobStatus_def log_call_def Let_def)

lemma try_block_success:
  assumes "try_block env jobId productUrl w = (w', None)"
  shows "\<exists>pageContent output imageData presignedUrl.
           update_processing env = None \<and> scrape_outcome env = Inr pageContent
         \<and> synth_outcome env = Inr output \<and> image_data output = Some imageData
         \<and> put_object_outcome env = None \<and> presign_outcome env = Inr presignedUrl
         \<and> update_completed env = None"
  using assms
  unfolding try_block_def generate_image_def store_image_def
  by (cases "update_processing env"; cases "update_completed env")
     (auto simp: updateJobStatus_ok updateJobStatus_rejected Let_def
           split: sum.splits option.splits)


lemma try_block_completed:
  assumes "update_processing env = None" "scrape_outcome env = Inr pageContent"
    "synth_outcome env = Inr output" "image_data output = Some imageData"
    "put_object_outcome env = None" "presign_outcome env = Inr presignedUrl"
    "update_completed env = None"
  shows "try_block env jobId productUrl w =
     (let imageBuffer = base64_decode env imageData;
          extension = fst (detect_format imageBuffer);
          contentType = snd (detect_format imageBuffer);
          fileName = jobId @ ''.'' @ extension;
          metadata = object_metadata_of pageContent productUrl;
          fields = (''status'', S ''completed'')
                     # completed_fields env pageContent presignedUrl fileName contentType in
      (w\<lparr>store := ddb_update jobId fields
                      (ddb_update jobId [(''status'', S ''processing'')] (store w)),
         bucket := (bucket w)(fileName \<mapsto>
                      \<lparr>object_body = imageBuffer, object_contentType = contentType,
                       object_metadata = metadata\<rparr>),
         trace := trace w @
           [DdbUpdate jobId [(''status'', S ''processing'')], HttpGet productUrl,
            ImageGeneration, S3Put fileName imageBuffer contentType metadata,
            S3Presign (S fileName) 3600, DdbUpdate jobId fields]\<rparr>, None))"
  using assms
  by (simp add: try_block_def generate_image_def store_image_def updateJobStatus_ok
        log_call_def Let_def)

lemma completed_write_fields:
  assumes "store w' = ddb_update jobId
             ((''status'', S ''completed'') # completed_fields env pc url fn ct) st"
  shows "field_of w' jobId ''status'' = Some (S ''completed'')"
    and "field_of w' jobId ''fileName'' = Some (S fn)"
    and "field_of w' jobId ''contentType'' = Some (S ct)"
    and "field_of w' jobId ''imageUrl'' = Some (S url)"
    and "field_of w' jobId ''expiresAt'' = Some (N (clock_expiresAt env + 3600 * 1000))"
    and "field_of w' jobId ''completedAt'' = Some (N (clock_completedAt env))"
  by (simp_all add: field_of_def assms ddb_update_same completed_fields_def assign_def)

text \<open>
  C5. The format is decided by the first two bytes of the decoded image: \<open>FF D8\<close>
  gives \<open>jpg\<close> and \<open>image/jpeg\<close>, \<open>89 50\<close> gives \<open>png\<close> and \<open>image/png\<close>, anything
  else (also a buffer shorter than two bytes) gives \<open>jpg\<close> and \<open>image/jpeg\<close>. When
  the \<open>try\<close> block runs to its end, the record is completed with \<open>fileName\<close> equal to
  \<open>jobId.extension\<close> and the detected content type, and the object was uploaded under
  that same key with those bytes and that content type.
\<close>

theorem C5_format_and_artifact_key:
  assumes "scrape_outcome env = Inr pageContent" and "synth_outcome env = Inr output"
    and "image_data output = Some imageData"
    and "try_block env jobId productUrl w = (w', None)"
    and "imageBuffer = base64_decode env imageData"
    and "extension = fst (detect_format imageBuffer)"
    and "contentType = snd (detect_format imageBuffer)"
  shows "detect_format b =
           (if take 2 b = [0xFF, 0xD8] then (''jpg'', ''image/jpeg'')
            else if take 2 b = [0x89, 0x50] then (''png'', ''image/png'')
            else (''jpg'', ''image/jpeg''))
       \<and> field_of w' jobId ''status'' = Some (S ''completed'')
       \<and> field_of w' jobId ''fileName'' = Some (S (jobId @ ''.'' @ extension))
       \<and> field_of w' jobId ''contentType'' = Some (S contentType)
       \<and> S3Put (jobId @ ''.'' @ extension) imageBuffer contentType
            (object_metadata_of pageContent productUrl) \<in> set (trace w')
       \<and> (\<exists>obj. bucket w' (jobId @ ''.'' @ extension) = Some obj
               \<and> object_body obj = imageBuffer \<and> object_contentType obj = contentType)"
proof -
  from try_block_success[OF assms(4)] assms(1-3)
  obtain presignedUrl where
    outcomes: "update_processing env = None" "put_object_outcome env = None"
      "presign_outcome env = Inr presignedUrl" "update_completed env = None"
    by auto
  note w' = try_block_completed[OF outcomes(1) assms(1-3) outcomes(2-4), of jobId productUrl w,
              unfolded assms(4) Let_def, folded assms(5), folded assms(6,7)]
  have fields: "field_of w' jobId ''status'' = Some (S ''completed'')"
    "field_of w' jobId ''fileName'' = Some (S (jobId @ ''.'' @ extension))"
    "field_of w' jobId ''contentType'' = Some (S contentType)"
    using completed_write_fields[of w' jobId env pageContent presignedUrl
            "jobId @ ''.'' @ extension" contentType
            "ddb_update jobId [(''status'', S ''processing'')] (store w)"] w'
    by simp_all
  have put: "S3Put (jobId @ ''.'' @ extension) imageBuffer contentType
            (object_metadata_of pageContent productUrl) \<in> set (trace w')"
    using w' by auto
  have obj: "\<exists>obj. bucket w' (jobId @ ''.'' @ extension) = Some obj
               \<and> object_body obj = imageBuffer \<and> object_contentType obj = contentType"
    using w' by auto
  from fields put obj show ?thesis
    by (simp add: detect_format_leading_bytes)
qed



theorem C5_witness:
  "field_of (fst (try_block env_png ''job-1'' ''https://example.com/widget'' initial))
     ''job-1'' ''fileName'' = Some (S ''job-1.png'')
   \<and> field_of (fst (try_block env_png ''job-1'' ''https://example.com/widget'' initial))
     ''job-1'' ''contentType'' = Some (S ''image/png'')
   \<and> snd (try_block env_png ''job-1'' ''https://example.com/widget'' initial) = None"
proof -
  have no_throw: "snd (try_block env_png ''job-1'' ''https://example.com/widget'' initial) = None"
    by (simp add: try_block_def generate_image_def store_image_def updateJobStatus_ok
          log_call_def Let_def env_png_def image_data_def)
  then have run: "try_block env_png ''job-1'' ''https://example.com/widget'' initial
          = (fst (try_block env_png ''job-1'' ''https://example.com/widget'' initial), None)"
    by (simp add: prod_eq_iff)
  have page: "scrape_outcome env_png =
                Inr \<lparr>productName = ''Widget'', price = ''$9.99'', offer = []\<rparr>"
    and out: "synth_outcome env_png =
                Inr [\<lparr>otype = ''reasoning'', oresult = None\<rparr>,
                     \<lparr>otype = ''image_generation_call'', oresult = Some ''iVBORw==''\<rparr>]"
    and img: "image_data [\<lparr>otype = ''reasoning'', oresult = None\<rparr>,
                     \<lparr>otype = ''image_generation_call'', oresult = Some ''iVBORw==''\<rparr>]
                = Some ''iVBORw=='' "
    and buf: "[0x89, 0x50, 0x4E, 0x47] = base64_decode env_png ''iVBORw=='' "
    by (simp_all add: env_png_def image_data_def)
  have ext: "''png'' = fst (detect_format [0x89, 0x50, 0x4E, 0x47])"
    and ct: "''image/png'' = snd (detect_format [0x89, 0x50, 0x4E, 0x47])"
    by (simp_all add: detect_format_leading_bytes)
  from C5_format_and_artifact_key[OF page out img run buf ext ct] no_throw
  show ?thesis by simp
qed


lemma try_block_thrown:
  assumes "try_block env jobId productUrl w = (w1, Some m)"
  shows "(update_processing env = Some m \<and> store w1 = store w)
       \<or> (update_processing env = None
              \<and> store w1 = ddb_update jobId [(''status'', S ''processing'')] (store w))"
  using assms
  unfolding try_block_def generate_image_def store_image_def
  by (cases "update_processing env"; cases "update_completed env")
     (auto simp: updateJobStatus_ok updateJobStatus_rejected Let_def log_call_def
           split: sum.splits option.splits)

lemma try_block_returned:
  assumes "try_block env jobId productUrl w = (w1, None)"
  shows "\<exists>pc url fn ct. store w1 = ddb_update jobId
                    ((''status'', S ''completed'') # completed_fields env pc url fn ct)
                    (ddb_update jobId [(''status'', S ''processing'')] (store w))"
proof -
  from try_block_success[OF assms]
  obtain pc out d url where
    o: "update_processing env = None" "scrape_outcome env = Inr pc" "synth_outcome env = Inr out"
       "image_data out = Some d" "put_object_outcome env = None" "presign_outcome env = Inr url"
       "update_completed env = None"
    by blast
  from try_block_completed[OF o, of jobId productUrl w] assms
  have "store w1 = ddb_update jobId
          ((''status'', S ''completed'') # completed_fields env pc url
              (jobId @ ''.'' @ fst (detect_format (base64_decode env d)))
              (snd (detect_format (base64_decode env d))))
          (ddb_update jobId [(''status'', S ''processing'')] (store w))"
    by (auto simp: Let_def)
  then show ?thesis by blast
qed

lemma try_block_trace:
  assumes "try_block env jobId productUrl w = (w1, r)"
  shows "\<exists>later. trace w1 = trace w @ DdbUpdate jobId [(''status'', S ''processing'')] # later"
  using assms
  unfolding try_block_def generate_image_def store_image_def
  by (cases "update_processing env"; cases "update_completed env")
     (auto simp: updateJobStatus_ok updateJobStatus_rejected Let_def log_call_def
           split: sum.splits option.splits)

lemma failed_write_fields:
  assumes "store w' = ddb_update jobId
             [(''status'', S ''failed''), (''error'', S m), (''failedAt'', N t)] st"
  shows "field_of w' jobId ''status'' = Some (S ''failed'')"
    and "field_of w' jobId ''error'' = Some (S m)"
    and "field_of w' jobId ''failedAt'' = Some (N t)"
  by (simp_all add: field_of_def assms ddb_update_same assign_def)

lemma status_of_field: "status_of w jobId = field_of w jobId ''status''"
  by (simp add: status_of_def field_of_def)

lemma process_record_caught:
  assumes "try_block env jobId productUrl w = (w1, Some m)"
  shows "process_record env jobId productUrl w =
           updateJobStatus (update_failed env) jobId ''failed''
             [(''error'', S m), (''failedAt'', N (clock_failedAt env))] w1"
  using assms by (simp add: process_record_def)

lemma process_record_completed:
  assumes "try_block env jobId productUrl w = (w1, None)"
  shows "process_record env jobId productUrl w = (w1, None)"
  using assms by (simp add: process_record_def)


text \<open>
  C1, as the code has it. Whatever the status of the record (also completed or failed),
  a Process invocation first sends the update that sets status to processing, without
  any condition. If that update succeeds and the invocation ends by throwing, the
  record is left with status processing; if the invocation returns normally, the
  record is left completed or failed, as decided by this attempt alone. A terminal
  status is therefore not preserved across a duplicate delivery.
\<close>

theorem C1_process_overwrites_any_status:
  assumes "process_record env jobId productUrl w = (w', r)"
  shows "(\<exists>later. trace w' = trace w @ DdbUpdate jobId [(''status'', S ''processing'')] # later)
       \<and> (update_processing env = None \<and> r \<noteq> None \<longrightarrow>
            status_of w' jobId = Some (S ''processing''))
       \<and> (r = None \<longrightarrow>
            status_of w' jobId = Some (S ''completed'') \<or> status_of w' jobId = Some (S ''failed''))"
proof (cases "try_block env jobId productUrl w")
  case (Pair w1 r1)
  show ?thesis
  proof (cases r1)
    case None
    with Pair have tb: "try_block env jobId productUrl w = (w1, None)" by simp
    with assms have same: "w' = w1" "r = None"
      by (simp_all add: process_record_completed)
    from try_block_returned[OF tb] same
    have "status_of w' jobId = Some (S ''completed'')"
      by (auto simp: status_of_field completed_write_fields(1))
    with try_block_trace[OF tb] same show ?thesis by simp
  next
    case (Some m)
    with Pair have tb: "try_block env jobId productUrl w = (w1, Some m)" by simp
    from try_block_trace[OF tb] obtain later where
      tr: "trace w1 = trace w @ DdbUpdate jobId [(''status'', S ''processing'')] # later"
      by blast
    note caught = assms[unfolded process_record_caught[OF tb]]
    show ?thesis
    proof (cases "update_failed env")
      case None
      with caught have w': "r = None"
        "store w' = ddb_update jobId [(''status'', S ''failed''), (''error'', S m),
                      (''failedAt'', N (clock_failedAt env))] (store w1)"
        "trace w' = trace w1 @ [DdbUpdate jobId [(''status'', S ''failed''), (''error'', S m),
                      (''failedAt'', N (clock_failedAt env))]]"
        by (auto simp: updateJobStatus_ok)
      from w'(2) have "status_of w' jobId = Some (S ''failed'')"
        by (simp add: status_of_field failed_write_fields(1))
      with w' tr show ?thesis by simp
    next
      case (Some m')
      with caught have w': "r = Some m'" "store w' = store w1"
        "trace w' = trace w1 @ [DdbUpdate jobId [(''status'', S ''failed''), (''error'', S m),
                      (''failedAt'', N (clock_failedAt env))]]"
        by (auto simp: updateJobStatus_rejected)
      from try_block_thrown[OF tb] w'(2)
      have "update_processing env = None \<longrightarrow> status_of w' jobId = Some (S ''processing'')"
        by (auto simp: status_of_def ddb_update_same assign_def)
      with w' tr show ?thesis by simp
    qed
  qed
qed


lemmas worker_eval =
  process_record_def try_block_def generate_image_def store_image_def
  updateJobStatus_ok updateJobStatus_rejected log_call_def Let_def
  status_of_def field_of_def ddb_update_def assign_def

text \<open>
  C1 as stated fails: a completed job whose work item is delivered again, with the
  scrape timing out this time, ends failed, after an update to processing; and when the
  write of the failed status is rejected as well, the completed record is left with
  status processing.
\<close>

theorem C1_counterexample:
  "status_of world_completed ''job-1'' = Some (S ''completed'')
   \<and> status_of (fst (process_record env_scrape_fails ''job-1'' ''https://example.com/widget''
                      world_completed)) ''job-1'' = Some (S ''failed'')
   \<and> trace (fst (process_record env_scrape_fails ''job-1'' ''https://example.com/widget''
                      world_completed))
       = [DdbUpdate ''job-1'' [(''status'', S ''processing'')],
          HttpGet ''https://example.com/widget'',
          DdbUpdate ''job-1'' [(''status'', S ''failed''),
                               (''error'', S ''timeout of 10000ms exceeded''),
                               (''failedAt'', N 1700000090000)]]
   \<and> status_of (fst (process_record env_failed_write_rejected ''job-1''
                      ''https://example.com/widget'' world_completed)) ''job-1''
       = Some (S ''processing'')"
  by (simp add: worker_eval world_completed_def completed_item_def env_scrape_fails_def
        env_failed_write_rejected_def)

theorem C1_witness:
  "status_of (fst (process_record env_failed_write_rejected ''job-1''
                      ''https://example.com/widget'' world_completed)) ''job-1''
       = Some (S ''processing'')
   \<and> snd (process_record env_failed_write_rejected ''job-1''
                      ''https://example.com/widget'' world_completed)
       = Some ''ProvisionedThroughputExceededException''
   \<and> snd (process_record env_scrape_fails ''job-1'' ''https://example.com/widget''
                      world_completed) = None
   \<and> (status_of (fst (process_record env_scrape_fails ''job-1'' ''https://example.com/widget''
                      world_completed)) ''job-1'' = Some (S ''completed'')
      \<or> status_of (fst (process_record env_scrape_fails ''job-1'' ''https://example.com/widget''
                      world_completed)) ''job-1'' = Some (S ''failed''))"
proof -
  have thrown: "snd (process_record env_failed_write_rejected ''job-1''
                      ''https://example.com/widget'' world_completed)
                  = Some ''ProvisionedThroughputExceededException''"
    and returned: "snd (process_record env_scrape_fails ''job-1'' ''https://example.com/widget''
                      world_completed) = None"
    and first_ok: "update_processing env_failed_write_rejected = None"
    by (simp_all add: worker_eval env_scrape_fails_def env_failed_write_rejected_def)
  from C1_process_overwrites_any_status
         [OF prod.collapse[symmetric], of env_failed_write_rejected "''job-1''"
            "''https://example.com/widget''" world_completed]
       C1_process_overwrites_any_status
         [OF prod.collapse[symmetric], of env_scrape_fails "''job-1''"
            "''https://example.com/widget''" world_completed]
       thrown returned first_ok
  show ?thesis by simp
qed

lemma process_record_failure:
  assumes "try_block env jobId productUrl w = (w1, Some m)"
    and "process_record env jobId productUrl w = (w', r)"
  shows "(update_failed env = None \<longrightarrow>
            r = None
          \<and> field_of w' jobId ''status'' = Some (S ''failed'')
          \<and> field_of w' jobId ''error'' = Some (S m)
          \<and> field_of w' jobId ''failedAt'' = Some (N (clock_failedAt env)))
       \<and> (update_failed env \<noteq> None \<longrightarrow> r = update_failed env \<and> store w' = store w1)"
proof -
  note caught = assms(2)[unfolded process_record_caught[OF assms(1)]]
  show ?thesis
  proof (cases "update_failed env")
    case None
    with caught have "r = None"
      "store w' = ddb_update jobId [(''status'', S ''failed''), (''error'', S m),
                      (''failedAt'', N (clock_failedAt env))] (store w1)"
      by (auto simp: updateJobStatus_ok)
    with None show ?thesis
      by (simp add: failed_write_fields)
  next
    case (Some m')
    with caught have "r = Some m'" "store w' = store w1"
      by (auto simp: updateJobStatus_rejected)
    with Some show ?thesis by simp
  qed
qed

lemma step_failure_throws:
  assumes "update_processing env = None"
    and "scrape_outcome env = Inl m
       \<or> (\<exists>pageContent. scrape_outcome env = Inr pageContent
            \<and> (synth_outcome env = Inl m
               \<or> (\<exists>output. synth_outcome env = Inr output
                    \<and> (image_data output = None \<and> m = ''No image returned from AI''
                       \<or> (\<exists>imageData. image_data output = Some imageData
                            \<and> put_object_outcome env = Some m)))))"
  shows "\<exists>w1. try_block env jobId productUrl w = (w1, Some m)
              \<and> store w1 = ddb_update jobId [(''status'', S ''processing'')] (store w)"
  using assms
  by (auto simp: try_block_def generate_image_def store_image_def updateJobStatus_ok
        log_call_def Let_def)

text \<open>
  C2, as the code has it. When the scrape, the image call (an API error, or no image
  in the output), or the upload throws with message \<open>m\<close>, the \<open>catch\<close> sends the
  update to status failed with \<open>error = m\<close> and \<open>failedAt\<close> the clock reading. If
  DynamoDB accepts that update, the handler does not throw and the record carries
  these three attributes (so the error is non-empty exactly when \<open>m\<close> is). If DynamoDB
  rejects it, that rejection leaves the handler uncaught and the record stays at
  status processing with no error recorded by this attempt.
\<close>

theorem C2_step_failure_recorded:
  assumes "update_processing env = None"
    and "scrape_outcome env = Inl m
       \<or> (\<exists>pageContent. scrape_outcome env = Inr pageContent
            \<and> (synth_outcome env = Inl m
               \<or> (\<exists>output. synth_outcome env = Inr output
                    \<and> (image_data output = None \<and> m = ''No image returned from AI''
                       \<or> (\<exists>imageData. image_data output = Some imageData
                            \<and> put_object_outcome env = Some m)))))"
    and "process_record env jobId productUrl w = (w', r)"
  shows "(update_failed env = None \<longrightarrow>
            r = None
          \<and> field_of w' jobId ''status'' = Some (S ''failed'')
          \<and> field_of w' jobId ''error'' = Some (S m)
          \<and> field_of w' jobId ''failedAt'' = Some (N (clock_failedAt env)))
       \<and> (update_failed env \<noteq> None \<longrightarrow>
            r = update_failed env
          \<and> field_of w' jobId ''status'' = Some (S ''processing'')
          \<and> field_of w' jobId ''error'' = field_of w jobId ''error'')"
proof -
  from step_failure_throws[OF assms(1,2), of jobId productUrl w]
  obtain w1 where tb: "try_block env jobId productUrl w = (w1, Some m)"
    and st: "store w1 = ddb_update jobId [(''status'', S ''processing'')] (store w)"
    by blast
  have "store w' = store w1 \<longrightarrow>
          field_of w' jobId ''status'' = Some (S ''processing'')
        \<and> field_of w' jobId ''error'' = field_of w jobId ''error''"
    using st by (auto simp: field_of_def ddb_update_same assign_def split: option.splits)
  with process_record_failure[OF tb assms(3)] show ?thesis
    by simp
qed

theorem C2_witness:
  "update_processing env_scrape_fails = None
   \<and> scrape_outcome env_scrape_fails = Inl ''timeout of 10000ms exceeded''
   \<and> update_failed env_scrape_fails = None
   \<and> snd (process_record env_scrape_fails ''job-1'' ''https://example.com/widget''
            world_pending) = None
   \<and> field_of (fst (process_record env_scrape_fails ''job-1'' ''https://example.com/widget''
            world_pending)) ''job-1'' ''status'' = Some (S ''failed'')
   \<and> field_of (fst (process_record env_scrape_fails ''job-1'' ''https://example.com/widget''
            world_pending)) ''job-1'' ''error'' = Some (S ''timeout of 10000ms exceeded'')"
proof -
  have up: "update_processing env_scrape_fails = None"
    and sc: "scrape_outcome env_scrape_fails = Inl ''timeout of 10000ms exceeded''"
    and uf: "update_failed env_scrape_fails = None"
    by (simp_all add: env_scrape_fails_def)
  from C2_step_failure_recorded
         [OF up disjI1[OF sc] prod.collapse[symmetric], of "''job-1''"
            "''https://example.com/widget''" world_pending] up sc uf
  show ?thesis by simp
qed

text \<open>
  C2 as stated fails: the scrape times out and the write of the failed status is
  rejected; the rejection escapes the handler and the record is left processing,
  without \<open>error\<close> and without \<open>failedAt\<close>.
\<close>

theorem C2_counterexample:
  "scrape_outcome env_failed_write_rejected = Inl ''timeout of 10000ms exceeded''
   \<and> snd (process_record env_failed_write_rejected ''job-1'' ''https://example.com/widget''
            world_pending) = Some ''ProvisionedThroughputExceededException''
   \<and> field_of (fst (process_record env_failed_write_rejected ''job-1''
            ''https://example.com/widget'' world_pending)) ''job-1'' ''status''
       = Some (S ''processing'')
   \<and> field_of (fst (process_record env_failed_write_rejected ''job-1''
            ''https://example.com/widget'' world_pending)) ''job-1'' ''error'' = None
   \<and> field_of (fst (process_record env_failed_write_rejected ''job-1''
            ''https://example.com/widget'' world_pending)) ''job-1'' ''failedAt'' = None"
  by (simp add: worker_eval world_pending_def env_scrape_fails_def
        env_failed_write_rejected_def)


section \<open>Responder: link renewal and frame\<close>

lemma link_fields_keep:
  assumes "truthy (job ''imageUrl'')"
    and "\<not> js_less (js_or (job ''expiresAt'') (N 0)) (clock_now env + 300000)"
  shows "link_fields env job w = (w, Inr (job ''imageUrl'', js_or (job ''expiresAt'') (N 0)))"
  using assms by (simp add: link_fields_def Let_def)

lemma link_fields_fallback:
  assumes "\<not> truthy (job ''imageUrl'')
           \<or> js_less (js_or (job ''expiresAt'') (N 0)) (clock_now env + 300000)"
    and "\<not> truthy (job ''fileName'')"
  shows "link_fields env job w = (w, Inr (job ''imageUrl'', js_or (job ''expiresAt'') (N 0)))"
  using assms by (auto simp: link_fields_def Let_def split: option.splits)

lemma link_fields_renew:
  assumes "\<not> truthy (job ''imageUrl'')
           \<or> js_less (js_or (job ''expiresAt'') (N 0)) (clock_now env + 300000)"
    and "job ''fileName'' = Some fileName" and "truthy (Some fileName)"
  shows "link_fields env job w =
           (log_call (S3Presign fileName 3600) w,
            case getSignedUrl_outcome env of
              Inl m \<Rightarrow> Inl m
            | Inr url \<Rightarrow> Inr (Some (S url), N (clock_now env + 3600 * 1000)))"
  using assms by (auto simp: link_fields_def Let_def split: sum.splits)

lemma link_fields_frame:
  assumes "link_fields env job w = (w1, x)"
  shows "store w1 = store w \<and> queue w1 = queue w \<and> bucket w1 = bucket w
       \<and> (trace w1 = trace w \<or> (\<exists>k. trace w1 = trace w @ [S3Presign k 3600]))"
  using assms
  by (auto simp: link_fields_def Let_def log_call_def split: if_splits option.splits sum.splits)

lemma status_response_frame:
  assumes "status_response env job w = (r, w1)"
  shows "store w1 = store w \<and> queue w1 = queue w \<and> bucket w1 = bucket w
       \<and> (trace w1 = trace w \<or> (\<exists>k. trace w1 = trace w @ [S3Presign k 3600]))"
proof (cases "job ''status'' = Some (S ''completed'')")
  case True
  obtain w2 x where lf: "link_fields env job w = (w2, x)"
    by (cases "link_fields env job w")
  with True assms have "w1 = w2"
    by (auto simp: status_response_def split: sum.splits prod.splits)
  with link_fields_frame[OF lf] show ?thesis by simp
next
  case False
  with assms have "w1 = w"
    by (auto simp: status_response_def split: if_splits)
  then show ?thesis by simp
qed

lemma lookup_job_frame:
  assumes "lookup_job env jobId w = (r, w')"
  shows "store w' = store w \<and> queue w' = queue w \<and> bucket w' = bucket w
       \<and> (trace w' = trace w @ [DdbGet jobId]
          \<or> (\<exists>k. trace w' = trace w @ [DdbGet jobId, S3Presign k 3600]))"
proof (cases "get_outcome env")
  case (Some m)
  with assms show ?thesis by (auto simp: lookup_job_def log_call_def Let_def)
next
  case None
  show ?thesis
  proof (cases "store w jobId")
    case None
    with \<open>get_outcome env = None\<close> assms show ?thesis
      by (auto simp: lookup_job_def log_call_def Let_def)
  next
    case (Some job)
    with \<open>get_outcome env = None\<close> assms
    have "status_response env job (log_call (DdbGet jobId) w) = (r, w')"
      by (simp add: lookup_job_def log_call_def Let_def)
    from status_response_frame[OF this] show ?thesis
      by (auto simp: log_call_def)
  qed
qed

text \<open>
  C10. A status read changes neither the job table nor the queue nor the bucket: for
  every job the stored \<open>imageUrl\<close> and \<open>expiresAt\<close> are what they were, also when the
  read regenerates the link. The only calls a read makes are the point get and, at
  most, one \<open>getSignedUrl\<close>.
\<close>

theorem C10_status_read_leaves_table_unchanged:
  assumes "responder_handler env jobIdParam w = (r, w')"
  shows "store w' = store w \<and> queue w' = queue w \<and> bucket w' = bucket w
       \<and> field_of w' j ''imageUrl'' = field_of w j ''imageUrl''
       \<and> field_of w' j ''expiresAt'' = field_of w j ''expiresAt''
       \<and> (trace w' = trace w
          \<or> (\<exists>jobId. trace w' = trace w @ [DdbGet jobId])
          \<or> (\<exists>jobId k. trace w' = trace w @ [DdbGet jobId, S3Presign k 3600]))"
proof (cases "\<exists>jobId. jobIdParam = Some jobId \<and> jobId \<noteq> []")
  case True
  then obtain jobId where "jobIdParam = Some jobId" "jobId \<noteq> []" by blast
  with assms have "lookup_job env jobId w = (r, w')" by simp
  from lookup_job_frame[OF this] show ?thesis
    by (auto simp: field_of_def)
next
  case False
  with assms have "w' = w"
    by (cases jobIdParam) (auto split: if_splits)
  then show ?thesis by simp
qed

lemma lookup_completed:
  assumes "jobId \<noteq> []" and "get_outcome env = None" and "store w jobId = Some job"
    and "job ''status'' = Some (S ''completed'')"
    and "link_fields env job (log_call (DdbGet jobId) w) = (w1, Inr (imageUrl, urlExpiresAt))"
  shows "responder_handler env (Some jobId) w =
           (ok ((base_fields job)
                   (''imageUrl'' := imageUrl, ''urlExpiresAt'' \<mapsto> urlExpiresAt,
                    ''overlayText'' := job ''overlayText'',
                    ''contentType'' := job ''contentType'',
                    ''completedAt'' := job ''completedAt'',
                    ''fileName'' := job ''fileName'')), w1)"
  using assms
  by (simp add: lookup_job_def status_response_def Let_def log_call_def)

text \<open>
  C4. A status read of a completed job, when the get succeeds. (1) If the stored link
  is a non-empty string and the stored expiry is at least now + 300000 ms, the stored
  pair is returned and the only call is the get. (2) If regeneration is due (no usable
  link, or expiry below now + 300000) and the record has no usable \<open>fileName\<close>, the
  read still answers 200 with the stored link (if any) and the stored expiry (0 if
  there is none), with no call to the object store. (3) If regeneration is due and
  \<open>fileName\<close> is there, \<open>getSignedUrl\<close> is asked for that key with 3600 seconds, and
  the URL it returns is sent back with expiry now + 3600000 ms.
\<close>

theorem C4_link_decision:
  assumes "jobId \<noteq> []" and "get_outcome env = None" and "store w jobId = Some job"
    and "job ''status'' = Some (S ''completed'')"
    and "responder_handler env (Some jobId) w = (r, w')"
  shows "(job ''imageUrl'' = Some (S link) \<and> link \<noteq> [] \<and> job ''expiresAt'' = Some (N e)
            \<and> clock_now env + 300000 \<le> e \<longrightarrow>
            statusCode r = 200 \<and> body r ''imageUrl'' = Some (S link)
          \<and> body r ''urlExpiresAt'' = Some (N e)
          \<and> trace w' = trace w @ [DdbGet jobId])
       \<and> ((\<not> truthy (job ''imageUrl'')
             \<or> js_less (js_or (job ''expiresAt'') (N 0)) (clock_now env + 300000))
            \<and> \<not> truthy (job ''fileName'') \<longrightarrow>
            statusCode r = 200 \<and> body r ''imageUrl'' = job ''imageUrl''
          \<and> body r ''urlExpiresAt'' = Some (js_or (job ''expiresAt'') (N 0))
          \<and> trace w' = trace w @ [DdbGet jobId])
       \<and> ((\<not> truthy (job ''imageUrl'')
             \<or> js_less (js_or (job ''expiresAt'') (N 0)) (clock_now env + 300000))
            \<and> job ''fileName'' = Some fileName \<and> truthy (Some fileName)
            \<and> getSignedUrl_outcome env = Inr url \<longrightarrow>
            statusCode r = 200 \<and> body r ''imageUrl'' = Some (S url)
          \<and> body r ''urlExpiresAt'' = Some (N (clock_now env + 3600000))
          \<and> trace w' = trace w @ [DdbGet jobId, S3Presign fileName 3600])"
proof (intro conjI impI)
  assume h: "job ''imageUrl'' = Some (S link) \<and> link \<noteq> [] \<and> job ''expiresAt'' = Some (N e)
            \<and> clock_now env + 300000 \<le> e"
  then have "truthy (job ''imageUrl'')"
    and "\<not> js_less (js_or (job ''expiresAt'') (N 0)) (clock_now env + 300000)"
    and e: "js_or (job ''expiresAt'') (N 0) = N e"
    by auto
  from link_fields_keep[OF this(1,2), of "log_call (DdbGet jobId) w"]
  have "responder_handler env (Some jobId) w =
           (ok ((base_fields job)
                   (''imageUrl'' := job ''imageUrl'',
                    ''urlExpiresAt'' \<mapsto> js_or (job ''expiresAt'') (N 0),
                    ''overlayText'' := job ''overlayText'',
                    ''contentType'' := job ''contentType'',
                    ''completedAt'' := job ''completedAt'',
                    ''fileName'' := job ''fileName'')), log_call (DdbGet jobId) w)"
    by (rule lookup_completed[OF assms(1-4)])
  with assms(5) h e
  show "statusCode r = 200" "body r ''imageUrl'' = Some (S link)"
    "body r ''urlExpiresAt'' = Some (N e)" "trace w' = trace w @ [DdbGet jobId]"
    by (auto simp: ok_def log_call_def)
next
  assume h: "(\<not> truthy (job ''imageUrl'')
             \<or> js_less (js_or (job ''expiresAt'') (N 0)) (clock_now env + 300000))
            \<and> \<not> truthy (job ''fileName'')"
  then have c: "\<not> truthy (job ''imageUrl'')
             \<or> js_less (js_or (job ''expiresAt'') (N 0)) (clock_now env + 300000)"
    and k: "\<not> truthy (job ''fileName'')"
    by blast+
  from link_fields_fallback[OF c k, of "log_call (DdbGet jobId) w"]
  have "responder_handler env (Some jobId) w =
           (ok ((base_fields job)
                   (''imageUrl'' := job ''imageUrl'',
                    ''urlExpiresAt'' \<mapsto> js_or (job ''expiresAt'') (N 0),
                    ''overlayText'' := job ''overlayText'',
                    ''contentType'' := job ''contentType'',
                    ''completedAt'' := job ''completedAt'',
                    ''fileName'' := job ''fileName'')), log_call (DdbGet jobId) w)"
    by (rule lookup_completed[OF assms(1-4)])
  with assms(5)
  show "statusCode r = 200" "body r ''imageUrl'' = job ''imageUrl''"
    "body r ''urlExpiresAt'' = Some (js_or (job ''expiresAt'') (N 0))"
    "trace w' = trace w @ [DdbGet jobId]"
    by (auto simp: ok_def log_call_def)
next
  assume h: "(\<not> truthy (job ''imageUrl'')
             \<or> js_less (js_or (job ''expiresAt'') (N 0)) (clock_now env + 300000))
            \<and> job ''fileName'' = Some fileName \<and> truthy (Some fileName)
            \<and> getSignedUrl_outcome env = Inr url"
  then have c: "\<not> truthy (job ''imageUrl'')
             \<or> js_less (js_or (job ''expiresAt'') (N 0)) (clock_now env + 300000)"
    and k: "job ''fileName'' = Some fileName" "truthy (Some fileName)"
    and u: "getSignedUrl_outcome env = Inr url"
    by blast+
  from link_fields_renew[OF c k, of "log_call (DdbGet jobId) w"] u
  have "link_fields env job (log_call (DdbGet jobId) w) =
          (log_call (S3Presign fileName 3600) (log_call (DdbGet jobId) w),
           Inr (Some (S url), N (clock_now env + 3600 * 1000)))"
    by simp
  from lookup_completed[OF assms(1-4) this] assms(5)
  show "statusCode r = 200" "body r ''imageUrl'' = Some (S url)"
    "body r ''urlExpiresAt'' = Some (N (clock_now env + 3600000))"
    "trace w' = trace w @ [DdbGet jobId, S3Presign fileName 3600]"
    by (auto simp: ok_def log_call_def)
qed

text \<open>
  C3, as the code has it. When a status read of a completed job regenerates the link
  (no usable stored link, or stored expiry below now + 300000 ms, and \<open>fileName\<close>
  present), the new link and the expiry now + 3600000 ms are returned to the caller,
  and the stored record is left as it was: its \<open>imageUrl\<close> and \<open>expiresAt\<close> keep
  their previous values.
\<close>

theorem C3_renewed_link_returned_not_stored:
  assumes "jobId \<noteq> []" and "get_outcome env = None" and "store w jobId = Some job"
    and "job ''status'' = Some (S ''completed'')"
    and "\<not> truthy (job ''imageUrl'')
         \<or> js_less (js_or (job ''expiresAt'') (N 0)) (clock_now env + 300000)"
    and "job ''fileName'' = Some fileName" and "truthy (Some fileName)"
    and "getSignedUrl_outcome env = Inr url"
    and "responder_handler env (Some jobId) w = (r, w')"
  shows "body r ''imageUrl'' = Some (S url)
       \<and> body r ''urlExpiresAt'' = Some (N (clock_now env + 3600000))
       \<and> store w' jobId = Some job
       \<and> field_of w' jobId ''imageUrl'' = job ''imageUrl''
       \<and> field_of w' jobId ''expiresAt'' = job ''expiresAt''"
proof -
  from link_fields_renew[OF assms(5-7), of "log_call (DdbGet jobId) w"] assms(8)
  have "link_fields env job (log_call (DdbGet jobId) w) =
          (log_call (S3Presign fileName 3600) (log_call (DdbGet jobId) w),
           Inr (Some (S url), N (clock_now env + 3600 * 1000)))"
    by simp
  from lookup_completed[OF assms(1-4) this] assms(9) assms(3)
  show ?thesis
    by (auto simp: ok_def log_call_def field_of_def)
qed

lemmas responder_eval =
  lookup_job_def status_response_def link_fields_def base_fields_def ok_def log_call_def
  Let_def field_of_def

text \<open>
  C3 as stated fails: after a read that regenerates the link, the caller holds the new
  URL and the new expiry while the record still holds the old ones.
\<close>

theorem C3_counterexample:
  "body (fst (responder_handler env_read_late (Some ''job-1'') world_completed)) ''imageUrl''
     = Some (S ''https://bucket/job-1.png?sig=2'')
   \<and> field_of (snd (responder_handler env_read_late (Some ''job-1'') world_completed))
        ''job-1'' ''imageUrl'' = Some (S ''https://bucket/job-1.png?sig=1'')
   \<and> body (fst (responder_handler env_read_late (Some ''job-1'') world_completed)) ''urlExpiresAt''
     = Some (N 1700007200000)
   \<and> field_of (snd (responder_handler env_read_late (Some ''job-1'') world_completed))
        ''job-1'' ''expiresAt'' = Some (N 1700003660000)"
  by (simp add: responder_eval env_read_late_def world_completed_def completed_item_def)

lemma late_read_hypotheses:
  "''job-1'' \<noteq> []" "get_outcome env_read_late = None"
  "store world_completed ''job-1'' = Some completed_item"
  "completed_item ''status'' = Some (S ''completed'')"
  "\<not> truthy (completed_item ''imageUrl'')
     \<or> js_less (js_or (completed_item ''expiresAt'') (N 0)) (clock_now env_read_late + 300000)"
  "completed_item ''fileName'' = Some (S ''job-1.png'')" "truthy (Some (S ''job-1.png''))"
  "getSignedUrl_outcome env_read_late = Inr ''https://bucket/job-1.png?sig=2''"
  by (simp_all add: env_read_late_def world_completed_def completed_item_def)

theorem C3_witness:
  "body (fst (responder_handler env_read_late (Some ''job-1'') world_completed)) ''imageUrl''
     = Some (S ''https://bucket/job-1.png?sig=2'')
   \<and> body (fst (responder_handler env_read_late (Some ''job-1'') world_completed))
        ''urlExpiresAt'' = Some (N 1700007200000)
   \<and> store (snd (responder_handler env_read_late (Some ''job-1'') world_completed)) ''job-1''
     = Some completed_item"
  using C3_renewed_link_returned_not_stored
          [OF late_read_hypotheses prod.collapse[symmetric]]
  by (simp add: env_read_late_def)

theorem C10_witness:
  "store (snd (responder_handler env_read_late (Some ''job-1'') world_completed))
     = store world_completed
   \<and> field_of (snd (responder_handler env_read_late (Some ''job-1'') world_completed))
        ''job-1'' ''imageUrl'' = Some (S ''https://bucket/job-1.png?sig=1'')"
  using C10_status_read_leaves_table_unchanged
          [OF prod.collapse[symmetric], of env_read_late "Some ''job-1''" world_completed
             "''job-1''"]
  by (simp add: field_of_def world_completed_def completed_item_def)

theorem C4_witness:
  "body (fst (responder_handler env_read_early (Some ''job-1'') world_completed)) ''imageUrl''
     = Some (S ''https://bucket/job-1.png?sig=1'')
   \<and> trace (snd (responder_handler env_read_early (Some ''job-1'') world_completed))
     = [DdbGet ''job-1'']
   \<and> body (fst (responder_handler env_read_late (Some ''job-2'') world_without_key)) ''imageUrl''
     = Some (S ''https://bucket/job-2.jpg?sig=1'')
   \<and> trace (snd (responder_handler env_read_late (Some ''job-2'') world_without_key))
     = [DdbGet ''job-2'']
   \<and> body (fst (responder_handler env_read_late (Some ''job-1'') world_completed)) ''imageUrl''
     = Some (S ''https://bucket/job-1.png?sig=2'')
   \<and> body (fst (responder_handler env_read_late (Some ''job-1'') world_completed))
        ''urlExpiresAt'' = Some (N 1700007200000)
   \<and> trace (snd (responder_handler env_read_late (Some ''job-1'') world_completed))
     = [DdbGet ''job-1'', S3Presign (S ''job-1.png'') 3600]"
proof -
  have early: "get_outcome env_read_early = None"
    and nokey: "''job-2'' \<noteq> []" "store world_without_key ''job-2'' = Some item_without_key"
      "item_without_key ''status'' = Some (S ''completed'')"
    by (simp_all add: env_read_early_def world_without_key_def item_without_key_def)
  note keep = C4_link_decision
      [OF late_read_hypotheses(1) early late_read_hypotheses(3,4) prod.collapse[symmetric],
       where link = "''https://bucket/job-1.png?sig=1''" and e = 1700003660000]
  note fallback = C4_link_decision
      [OF nokey(1) late_read_hypotheses(2) nokey(2,3) prod.collapse[symmetric]]
  note renew = C4_link_decision
      [OF late_read_hypotheses(1-4) prod.collapse[symmetric],
       where fileName = "S ''job-1.png''" and url = "''https://bucket/job-1.png?sig=2''"]
  have "trace world_completed = []" "trace world_without_key = []"
    by (simp_all add: world_completed_def world_without_key_def)
  with keep fallback renew show ?thesis
    by (simp add: env_read_early_def env_read_late_def completed_item_def
          item_without_key_def)
qed


section \<open>Histories: which jobs have a record\<close>

lemma dom_ddb_update: "dom (ddb_update jobId assignments st) = insert jobId (dom st)"
  by (simp add: ddb_update_def)

lemma process_record_dom:
  assumes "process_record env jobId productUrl w = (w', r)"
  shows "dom (store w') \<subseteq> insert jobId (dom (store w))"
proof (cases "try_block env jobId productUrl w")
  case (Pair w1 r1)
  show ?thesis
  proof (cases r1)
    case None
    with Pair have tb: "try_block env jobId productUrl w = (w1, None)" by simp
    with assms have "w' = w1" by (simp add: process_record_completed)
    moreover from try_block_returned[OF tb]
    have "dom (store w1) = insert jobId (dom (store w))"
      by (elim exE) (simp add: dom_ddb_update)
    ultimately show ?thesis by simp
  next
    case (Some m)
    with Pair have tb: "try_block env jobId productUrl w = (w1, Some m)" by simp
    from try_block_thrown[OF tb] have "store w1 = store w
        \<or> store w1 = ddb_update jobId [(''status'', S ''processing'')] (store w)"
      by blast
    then have w1: "dom (store w1) \<subseteq> insert jobId (dom (store w))"
      by (elim disjE) (simp_all add: dom_ddb_update subset_insertI)
    note caught = assms[unfolded process_record_caught[OF tb]]
    have "store w' = store w1
        \<or> store w' = ddb_update jobId [(''status'', S ''failed''), (''error'', S m),
                          (''failedAt'', N (clock_failedAt env))] (store w1)"
      using caught
      by (cases "update_failed env")
         (auto simp: updateJobStatus_ok updateJobStatus_rejected)
    then have "dom (store w') \<subseteq> insert jobId (dom (store w1))"
      by (elim disjE) (simp_all add: dom_ddb_update subset_insertI)
    with w1 show ?thesis by blast
  qed
qed

lemma worker_handler_dom:
  "dom (store (fst (worker_handler records w))) \<subseteq> dom (store w) \<union> work_item_ids records"
proof (induction records arbitrary: w)
  case Nil
  show ?case by simp
next
  case (Cons a records)
  obtain env item where a: "a = (env, item)" by (cases a)
  show ?case
  proof (cases item)
    case (Unparsable m)
    with a show ?thesis by simp
  next
    case (WorkItem jobId productUrl)
    obtain w1 r where pr: "process_record env jobId productUrl w = (w1, r)"
      by (cases "process_record env jobId productUrl w")
    note d = process_record_dom[OF pr]
    show ?thesis
    proof (cases r)
      case None
      with pr a WorkItem
      have "worker_handler (a # records) w = worker_handler records w1" by simp
      with Cons.IH[of w1] d a WorkItem show ?thesis by auto
    next
      case (Some m)
      with pr a WorkItem have "fst (worker_handler (a # records) w) = w1" by simp
      with d a WorkItem show ?thesis by auto
    qed
  qed
qed

lemma receiver_handler_dom:
  "dom (store (snd (receiver_handler env b w))) \<subseteq> dom (store w) \<union> written_ids (Create env b)"
proof (cases b)
  case (Malformed m)
  then show ?thesis by simp
next
  case (Fields productUrl)
  show ?thesis
  proof (cases productUrl)
    case None
    with Fields show ?thesis by simp
  next
    case (Some u)
    with Fields show ?thesis
      by (auto simp: create_job_def enqueue_def log_call_def Let_def split: option.splits)
  qed
qed

lemma responder_handler_store:
  "store (snd (responder_handler env jobIdParam w)) = store w"
proof (cases "\<exists>jobId. jobIdParam = Some jobId \<and> jobId \<noteq> []")
  case True
  then obtain jobId where j: "jobIdParam = Some jobId" "jobId \<noteq> []" by blast
  obtain r w' where l: "lookup_job env jobId w = (r, w')"
    by (cases "lookup_job env jobId w")
  from lookup_job_frame[OF l] j l show ?thesis by simp
next
  case False
  then show ?thesis by (cases jobIdParam) auto
qed

lemma step_dom: "dom (store (step e w)) \<subseteq> dom (store w) \<union> written_ids e"
proof (cases e)
  case (Create env b)
  with receiver_handler_dom[of env b w] show ?thesis by simp
next
  case (Process records)
  with worker_handler_dom[of records w] show ?thesis by simp
next
  case (Read env jobIdParam)
  then show ?thesis by (simp add: responder_handler_store)
qed

lemma run_dom:
  "dom (store (run events w)) \<subseteq> dom (store w) \<union> (\<Union>e \<in> set events. written_ids e)"
proof (induction events arbitrary: w)
  case Nil
  show ?case by (simp add: run_def)
next
  case (Cons e events)
  have "dom (store (run (e # events) w)) = dom (store (run events (step e w)))"
    by (simp add: run_def)
  also have "\<dots> \<subseteq> dom (store (step e w)) \<union> (\<Union>e \<in> set events. written_ids e)"
    by (rule Cons.IH)
  also have "\<dots> \<subseteq> dom (store w) \<union> (\<Union>e \<in> set (e # events). written_ids e)"
    using step_dom[of e w] by auto
  finally show ?case .
qed

lemma lookup_missing:
  assumes "jobId \<noteq> []" and "get_outcome env = None" and "store w jobId = None"
  shows "responder_handler env (Some jobId) w = (not_found, log_call (DdbGet jobId) w)"
  using assms by (simp add: lookup_job_def log_call_def Let_def)

lemma link_fields_returns:
  assumes "getSignedUrl_outcome env = Inr url"
  shows "\<exists>w1 imageUrl urlExpiresAt. link_fields env job w = (w1, Inr (imageUrl, urlExpiresAt))"
  using assms by (simp add: link_fields_def Let_def split: option.splits)

lemma lookup_existing:
  assumes "jobId \<noteq> []" and "get_outcome env = None" and "store w jobId = Some job"
    and "job ''status'' = Some (S ''completed'') \<longrightarrow> (\<exists>url. getSignedUrl_outcome env = Inr url)"
    and "r = fst (responder_handler env (Some jobId) w)"
  shows "statusCode r = 200 \<and> body r ''jobId'' = job ''jobId''
       \<and> body r ''status'' = job ''status'' \<and> body r ''createdAt'' = job ''createdAt''
       \<and> (job ''status'' = Some (S ''completed'') \<longrightarrow>
            body r ''urlExpiresAt'' \<noteq> None \<and> body r ''contentType'' = job ''contentType''
          \<and> body r ''completedAt'' = job ''completedAt''
          \<and> body r ''fileName'' = job ''fileName'')
       \<and> (job ''status'' = Some (S ''failed'') \<longrightarrow>
            body r ''error'' = job ''error'' \<and> body r ''failedAt'' = job ''failedAt'')
       \<and> (job ''status'' = Some (S ''processing'') \<longrightarrow>
            body r ''message'' = Some (S ''Image generation in progress''))"
proof (cases "job ''status'' = Some (S ''completed'')")
  case True
  with assms(4) obtain url where "getSignedUrl_outcome env = Inr url" by blast
  from link_fields_returns[OF this, of job "log_call (DdbGet jobId) w"]
  obtain w1 imageUrl urlExpiresAt where
    "link_fields env job (log_call (DdbGet jobId) w) = (w1, Inr (imageUrl, urlExpiresAt))"
    by blast
  from lookup_completed[OF assms(1-3) True this] assms(5) True
  show ?thesis
    by (simp add: ok_def base_fields_def)
next
  case False
  with assms(1-3,5) show ?thesis
    by (simp add: lookup_job_def status_response_def log_call_def Let_def ok_def
          base_fields_def)
qed

lemma process_record_creates:
  assumes "process_record env jobId productUrl w = (w', r)"
    and "update_processing env = None \<or> update_failed env = None"
  shows "store w' jobId \<noteq> None"
proof (cases "try_block env jobId productUrl w")
  case (Pair w1 r1)
  show ?thesis
  proof (cases r1)
    case None
    with Pair have tb: "try_block env jobId productUrl w = (w1, None)" by simp
    with assms(1) have "w' = w1" by (simp add: process_record_completed)
    with try_block_returned[OF tb] show ?thesis
      by (elim exE) (simp add: ddb_update_same)
  next
    case (Some m)
    with Pair have tb: "try_block env jobId productUrl w = (w1, Some m)" by simp
    note caught = assms(1)[unfolded process_record_caught[OF tb]]
    show ?thesis
    proof (cases "update_failed env")
      case None
      with caught have "store w' = ddb_update jobId [(''status'', S ''failed''), (''error'', S m),
                          (''failedAt'', N (clock_failedAt env))] (store w1)"
        by (auto simp: updateJobStatus_ok)
      then show ?thesis by (simp add: ddb_update_same)
    next
      case (Some m')
      with assms(2) have "update_processing env = None" by simp
      with try_block_thrown[OF tb]
      have "store w1 = ddb_update jobId [(''status'', S ''processing'')] (store w)" by simp
      moreover from Some caught have "store w' = store w1"
        by (auto simp: updateJobStatus_rejected)
      ultimately show ?thesis by (simp add: ddb_update_same)
    qed
  qed
qed

lemma process_record_both_rejected:
  assumes "process_record env jobId productUrl w = (w', r)"
    and "update_processing env \<noteq> None" and "update_failed env \<noteq> None"
  shows "store w' = store w"
  using assms
  by (auto simp: process_record_def try_block_def updateJobStatus_rejected)

lemma lookup_found:
  assumes "jobId \<noteq> []" and "get_outcome env = None" and "store w jobId \<noteq> None"
  shows "statusCode (fst (responder_handler env (Some jobId) w)) = 200
       \<or> statusCode (fst (responder_handler env (Some jobId) w)) = 500"
proof -
  from assms(3) obtain job where job: "store w jobId = Some job" by blast
  obtain w1 x where lf: "link_fields env job (log_call (DdbGet jobId) w) = (w1, x)"
    by (cases "link_fields env job (log_call (DdbGet jobId) w)")
  show ?thesis
    using assms(1,2) job lf
    by (cases x)
       (auto simp: lookup_job_def status_response_def Let_def log_call_def ok_def
          server_error_def)
qed

text \<open>
  C9, as the code has it. After any history of handler invocations from the empty
  table, a status lookup (with a non-empty \<open>jobId\<close> and a get that succeeds) answers
  404 for every \<open>jobId\<close> that was neither the identifier of a valid submission nor the
  \<open>jobId\<close> of a work item given to the worker. In any state, such a lookup of a \<open>jobId\<close>
  whose record exists answers 200 with \<open>jobId\<close>, \<open>status\<close> and \<open>createdAt\<close> of the
  record and the fields of its status (for a completed record provided \<open>getSignedUrl\<close>
  does not throw). A Process invocation leaves a record for its \<open>jobId\<close>, whether or
  not there was one, as soon as DynamoDB accepts its first status write or, that one
  being rejected, its write of the failed status (the update adds the item); the
  lookup of that \<open>jobId\<close> (non-empty, the get succeeding) then no longer answers 404. When DynamoDB rejects both
  writes, the table is left as it was.
\<close>

theorem C9_lookup_of_unwritten_job_not_found:
  assumes "jobId \<noteq> []" and "get_outcome env = None"
  shows "(jobId \<notin> (\<Union>e \<in> set events. written_ids e) \<longrightarrow>
            fst (responder_handler env (Some jobId) (run events initial)) = not_found)
       \<and> statusCode not_found = 404
       \<and> (store w jobId = Some job
            \<and> (job ''status'' = Some (S ''completed'') \<longrightarrow>
                  (\<exists>url. getSignedUrl_outcome env = Inr url))
            \<and> r = fst (responder_handler env (Some jobId) w) \<longrightarrow>
            statusCode r = 200 \<and> body r ''jobId'' = job ''jobId''
          \<and> body r ''status'' = job ''status'' \<and> body r ''createdAt'' = job ''createdAt''
          \<and> (job ''status'' = Some (S ''completed'') \<longrightarrow>
               body r ''urlExpiresAt'' \<noteq> None \<and> body r ''contentType'' = job ''contentType''
             \<and> body r ''completedAt'' = job ''completedAt''
             \<and> body r ''fileName'' = job ''fileName'')
          \<and> (job ''status'' = Some (S ''failed'') \<longrightarrow>
               body r ''error'' = job ''error'' \<and> body r ''failedAt'' = job ''failedAt'')
          \<and> (job ''status'' = Some (S ''processing'') \<longrightarrow>
               body r ''message'' = Some (S ''Image generation in progress'')))
       \<and> (process_record wenv jobId productUrl w0 = (w1, res) \<longrightarrow>
            (update_processing wenv = None \<or> update_failed wenv = None \<longrightarrow>
               store w1 jobId \<noteq> None
             \<and> statusCode (fst (responder_handler env (Some jobId) w1)) \<noteq> 404)
          \<and> (update_processing wenv \<noteq> None \<and> update_failed wenv \<noteq> None \<longrightarrow>
               store w1 = store w0))"
proof -
  have unwritten: "fst (responder_handler env (Some jobId) (run events initial)) = not_found"
    if "jobId \<notin> (\<Union>e \<in> set events. written_ids e)"
  proof -
    from run_dom[of events initial] that have "jobId \<notin> dom (store (run events initial))"
      by (auto simp: initial_def)
    then have "store (run events initial) jobId = None" by blast
    from lookup_missing[OF assms this] show ?thesis by simp
  qed
  have code: "statusCode not_found = 404"
    by (simp add: not_found_def)
  have created: "store w1 jobId \<noteq> None
             \<and> statusCode (fst (responder_handler env (Some jobId) w1)) \<noteq> 404"
    if "process_record wenv jobId productUrl w0 = (w1, res)"
      and "update_processing wenv = None \<or> update_failed wenv = None"
  proof -
    from process_record_creates[OF that] have "store w1 jobId \<noteq> None" .
    with lookup_found[OF assms this] show ?thesis by auto
  qed
  have untouched: "store w1 = store w0"
    if "process_record wenv jobId productUrl w0 = (w1, res)"
      and "update_processing wenv \<noteq> None \<and> update_failed wenv \<noteq> None"
    using process_record_both_rejected[of wenv jobId productUrl w0 w1 res] that by blast
  from unwritten code lookup_existing[OF assms, of w job r] created untouched show ?thesis
    by blast
qed


text \<open>
  C9 as stated fails: with no submission at all, one Process invocation for the
  identifier \<open>ghost\<close> creates its record (the update adds the item), and the lookup of
  \<open>ghost\<close> then answers 200 with status failed instead of 404.
\<close>

theorem C9_counterexample:
  "store initial ''ghost'' = None
   \<and> statusCode (fst (responder_handler env_read_early (Some ''ghost'')
        (run [Process [(env_scrape_fails, WorkItem ''ghost'' ''https://example.com/widget'')]]
           initial))) = 200
   \<and> body (fst (responder_handler env_read_early (Some ''ghost'')
        (run [Process [(env_scrape_fails, WorkItem ''ghost'' ''https://example.com/widget'')]]
           initial))) ''status'' = Some (S ''failed'')"
  by (simp add: run_def worker_eval lookup_job_def status_response_def base_fields_def
        ok_def initial_def env_scrape_fails_def env_read_early_def)

theorem C9_witness:
  "''job-9'' \<notin> (\<Union>e \<in> set [Create env_send_fails (Fields (Some ''https://example.com/widget'')),
                              Process [(env_scrape_fails,
                                        WorkItem ''job-1'' ''https://example.com/widget'')]].
                    written_ids e)
   \<and> fst (responder_handler env_read_early (Some ''job-9'')
        (run [Create env_send_fails (Fields (Some ''https://example.com/widget'')),
              Process [(env_scrape_fails, WorkItem ''job-1'' ''https://example.com/widget'')]]
           initial)) = not_found
   \<and> statusCode not_found = 404
   \<and> update_processing env_scrape_fails = None
   \<and> store (fst (process_record env_scrape_fails ''job-9'' ''https://example.com/widget''
                   initial)) ''job-9'' \<noteq> None"
proof -
  have id: "''job-9'' \<noteq> []" and get: "get_outcome env_read_early = None"
    and first_ok: "update_processing env_scrape_fails = None"
    by (simp_all add: env_read_early_def env_scrape_fails_def)
  have unwritten: "''job-9'' \<notin> (\<Union>e \<in> set [Create env_send_fails (Fields (Some ''https://example.com/widget'')),
                              Process [(env_scrape_fails,
                                        WorkItem ''job-1'' ''https://example.com/widget'')]].
                    written_ids e)"
    by (simp add: env_send_fails_def)
  have run: "process_record env_scrape_fails ''job-9'' ''https://example.com/widget'' initial
       = (fst (process_record env_scrape_fails ''job-9'' ''https://example.com/widget'' initial),
          snd (process_record env_scrape_fails ''job-9'' ''https://example.com/widget'' initial))"
    by (rule prod.collapse[symmetric])
  from C9_lookup_of_unwritten_job_not_found[OF id get,
         of "[Create env_send_fails (Fields (Some ''https://example.com/widget'')),
              Process [(env_scrape_fails, WorkItem ''job-1'' ''https://example.com/widget'')]]"
            _ _ _ env_scrape_fails "''https://example.com/widget''" initial
            "fst (process_record env_scrape_fails ''job-9'' ''https://example.com/widget''
                   initial)"
            "snd (process_record env_scrape_fails ''job-9'' ''https://example.com/widget''
                   initial)"]
       unwritten first_ok run
  show ?thesis by blast
qed

end
